theory Spec2Isabelle
  imports Main "HOL-Library.Sublist"
begin

section \<open>JavaScript values and string helpers\<close>

text \<open>
  The agent is JavaScript. The values that flow through the functions verified here are
  strings, numbers and \<open>undefined\<close>. The numbers that occur are integers, infinities
  and \<open>NaN\<close>: \<open>Num\<close> carries an integer, which is always one that a JavaScript Number
  (an IEEE 754 double) represents, because every number that is computed goes through
  \<open>js_number\<close> below; \<open>NaN\<close> is the result of a failed \<open>parseInt\<close>, and
  \<open>Undefined\<close> is a property that was never set.
\<close>

datatype jsnum = Num int | NaN | Undefined | PosInf | NegInf

text \<open>
  The Number value of a mathematical integer: a double has 53 bits of mantissa, so every
  integer of magnitude below \<open>2^53\<close> is itself, and a larger one is rounded to the
  nearest multiple of the power of two that leaves 53 bits, a tie going to the even
  mantissa. A magnitude that rounds to \<open>2^1024\<close> or more is an infinity.
  \<open>bitlen n\<close> is the number of binary digits of \<open>n\<close>.
\<close>

fun bitlen :: "nat \<Rightarrow> nat" where
  "bitlen n = (if n = 0 then 0 else Suc (bitlen (n div 2)))"

declare bitlen.simps [simp del]

definition round_double :: "nat \<Rightarrow> nat" where
  "round_double n =
     (if n < 2 ^ 53 then n
      else (let e = bitlen n - 53;
                q = n div 2 ^ e;
                r = n mod 2 ^ e;
                half = 2 ^ (e - 1)
            in if half < r \<or> (r = half \<and> odd q) then (q + 1) * 2 ^ e else q * 2 ^ e))"

definition js_number :: "int \<Rightarrow> jsnum" where
  "js_number i =
     (let m = round_double (nat \<bar>i\<bar>)
      in if 2 ^ 1024 \<le> m then (if i < 0 then NegInf else PosInf)
         else Num (if i < 0 then - int m else int m))"

text \<open>Truthiness, as \<open>||\<close> and \<open>if\<close> read it.\<close>

fun truthy :: "jsnum \<Rightarrow> bool" where
  "truthy (Num n) = (n \<noteq> 0)"
| "truthy NaN = False"
| "truthy Undefined = False"
| "truthy PosInf = True"
| "truthy NegInf = True"

fun truthy_str :: "string option \<Rightarrow> bool" where
  "truthy_str None = False"
| "truthy_str (Some s) = (s \<noteq> [])"

text \<open>
  \<open>expiry * 1000\<close>: the product is a Number again, and arithmetic on a non-number gives
  \<open>NaN\<close>.
\<close>

fun times1000 :: "jsnum \<Rightarrow> jsnum" where
  "times1000 (Num n) = js_number (n * 1000)"
| "times1000 NaN = NaN"
| "times1000 Undefined = NaN"
| "times1000 PosInf = PosInf"
| "times1000 NegInf = NegInf"

text \<open>A value inside a template literal: \<open>undefined\<close> prints as the word.\<close>

fun tpl :: "string option \<Rightarrow> string" where
  "tpl None = ''undefined''"
| "tpl (Some s) = s"

text \<open>
  White space and line terminators, as \<open>trim\<close> and \<open>parseInt\<close> skip them. A character
  here is one of the 256 code points from 0 to 255, and these seven are the ones among them
  that JavaScript counts; the others (U+FEFF, U+2028, U+2029 and the space separators
  from U+1680 on) lie outside that type.
\<close>

definition is_ws :: "char \<Rightarrow> bool" where
  "is_ws c = (c \<in> set [CHR 0x09, CHR 0x0A, CHR 0x0B, CHR 0x0C, CHR 0x0D, CHR '' '', CHR 0xA0])"

definition is_digit :: "char \<Rightarrow> bool" where
  "is_digit c = (c \<in> set ''0123456789'')"

text \<open>\<open>String.prototype.trim\<close>.\<close>

definition trim :: "string \<Rightarrow> string" where
  "trim s = rev (dropWhile is_ws (rev (dropWhile is_ws s)))"

text \<open>\<open>s.split(c)\<close> for a one-character separator: never the empty list.\<close>

fun split_on :: "char \<Rightarrow> string \<Rightarrow> string list" where
  "split_on c [] = [[]]"
| "split_on c (x # xs) =
     (if x = c then [] # split_on c xs
      else (case split_on c xs of
              [] \<Rightarrow> [[x]]
            | y # ys \<Rightarrow> (x # y) # ys))"

text \<open>
  Decimal rendering of a number, as a template literal prints it (JavaScript changes to
  exponent notation from \<open>10^21\<close> upward; the numbers rendered here are version counters).
\<close>

definition digit_char :: "nat \<Rightarrow> char" where
  "digit_char d = ''0123456789'' ! (d mod 10)"

fun show_nat :: "nat \<Rightarrow> string" where
  "show_nat n = (if n < 10 then [digit_char n] else show_nat (n div 10) @ [digit_char n])"

declare show_nat.simps [simp del]

definition show_int :: "int \<Rightarrow> string" where
  "show_int i = (if i < 0 then CHR ''-'' # show_nat (nat (- i)) else show_nat (nat i))"

fun show_num :: "jsnum \<Rightarrow> string" where
  "show_num (Num n) = show_int n"
| "show_num NaN = ''NaN''"
| "show_num Undefined = ''undefined''"
| "show_num PosInf = ''Infinity''"
| "show_num NegInf = ''-Infinity''"

subsection \<open>parseInt\<close>

text \<open>
  \<open>parseInt(s)\<close> with no radix: leading white space is skipped, one sign is read, a
  \<open>0x\<close> or \<open>0X\<close> prefix selects radix 16, and the longest prefix of digits of the
  radix is the mathematical value; no digit at all gives \<open>NaN\<close>. The result is the
  Number value of that integer, so from \<open>2^53\<close> upward it is rounded.
\<close>

definition digit_of :: "char \<Rightarrow> nat option" where
  "digit_of c =
     (let n = of_char c :: nat in
      if 48 \<le> n \<and> n \<le> 57 then Some (n - 48)
      else if 97 \<le> n \<and> n \<le> 122 then Some (n - 87)
      else if 65 \<le> n \<and> n \<le> 90 then Some (n - 55)
      else None)"

definition in_radix :: "nat \<Rightarrow> char \<Rightarrow> bool" where
  "in_radix r c = (case digit_of c of None \<Rightarrow> False | Some d \<Rightarrow> d < r)"

definition digits_value :: "nat \<Rightarrow> string \<Rightarrow> nat" where
  "digits_value r ds = foldl (\<lambda>a c. a * r + (case digit_of c of None \<Rightarrow> 0 | Some d \<Rightarrow> d)) 0 ds"

definition parseInt :: "string \<Rightarrow> jsnum" where
  "parseInt s =
     (let s1 = dropWhile is_ws s;
          neg = (case s1 of [] \<Rightarrow> False | c # _ \<Rightarrow> c = CHR ''-'');
          s2 = (case s1 of [] \<Rightarrow> [] | c # r \<Rightarrow> if c = CHR ''-'' \<or> c = CHR ''+'' then r else s1);
          hex = (case s2 of
                   a # b # _ \<Rightarrow> a = CHR ''0'' \<and> (b = CHR ''x'' \<or> b = CHR ''X'')
                 | _ \<Rightarrow> False);
          radix = (if hex then 16 else 10);
          s3 = (if hex then drop 2 s2 else s2);
          ds = takeWhile (in_radix radix) s3
      in if ds = [] then NaN
         else js_number ((if neg then - 1 else 1) * int (digits_value radix ds)))"

section \<open>Store key names\<close>

text \<open>
  \<open>lib/events/packages/dialog.js\<close>, lines 37 to 39, and the end of the store module.
  Each is a template literal; the arguments are the rendered values.
  In \<open>makeDialogInfoKey\<close> the source text is \<^verbatim>\<open>`dlg-info:$${aor}`\<close>: the first dollar
  sign is not followed by a brace, so it is a character of the key.
\<close>

definition makeDialogInfoKey :: "string \<Rightarrow> string" where
  "makeDialogInfoKey aor = ''dlg-info:$'' @ aor"

definition makeSubscriptionName :: "string \<Rightarrow> string \<Rightarrow> string" where
  "makeSubscriptionName subscriber resource = ''dlg-sub:'' @ subscriber @ ''-'' @ resource"

definition makeSubscribedResourceKey :: "string \<Rightarrow> string" where
  "makeSubscribedResourceKey resource = ''watched-aor:'' @ resource"

definition ZSET :: string where
  "ZSET = ''event_zset''"

definition makeRegKey :: "string \<Rightarrow> string" where
  "makeRegKey aor = ''reg:'' @ aor"

definition makeEventStateKey :: "string \<Rightarrow> string \<Rightarrow> string" where
  "makeEventStateKey aor event = ''es:'' @ aor @ '':'' @ event"

definition makeSubStateKey :: "string \<Rightarrow> string" where
  \<comment> \<open>the argument is the fresh identifier \<open>translator.new()\<close> returns\<close>
  "makeSubStateKey fresh = ''sub:'' @ fresh"

definition makeSubStateKeyId :: "string \<Rightarrow> string \<Rightarrow> string \<Rightarrow> string \<Rightarrow> string" where
  "makeSubStateKeyId subscriber resource event i =
     ''subkeyid:'' @ resource @ '':'' @ event @ '':'' @ subscriber @ '':'' @ i"

definition makeSubStateKeyDialog :: "string \<Rightarrow> string \<Rightarrow> string \<Rightarrow> string \<Rightarrow> string" where
  "makeSubStateKeyDialog subscriber resource event callid =
     ''subkeydlg:'' @ resource @ '':'' @ event @ '':'' @ subscriber @ '':'' @ callid"

section \<open>Configuration and the header utilities\<close>

text \<open>
  The configuration is read through the \<open>config\<close> package and the environment:
  \<open>supportedEvents\<close> is \<open>SUPPORTED_EVENTS\<close> split at commas and trimmed,
  \<open>expire_default\<close> is the object at \<open>methods.subscribe.expire.default\<close> (absent when
  \<open>config.has\<close> is false), mapping a package name to the \<open>expires\<close> property of its
  entry, and \<open>domain\<close> is the optional domain override.
\<close>

record config =
  supportedEvents :: "string list"
  expire_default :: "(string \<rightharpoonup> jsnum) option"
  domain :: "string option"

text \<open>
  \<open>parseUri\<close> belongs to the SIP library; the model starts from its result, of which
  \<open>parseAor\<close> reads the user part (absent for a URI such as \<open>sip:example.com\<close>) and
  the host.
\<close>

record uri =
  user :: "string option"
  host :: string

text \<open>
  The regular expression \<^verbatim>\<open>/^(?:[0-9]{1,3}\.){3}[0-9]{1,3}$/\<close>: four groups of one to
  three digits, separated by dots, and nothing else.
\<close>

definition ipv4_literal :: "string \<Rightarrow> bool" where
  "ipv4_literal h =
     (let parts = split_on CHR ''.'' h
      in length parts = 4 \<and> list_all (\<lambda>p. p \<noteq> [] \<and> length p \<le> 3 \<and> list_all is_digit p) parts)"

definition parseAor :: "config \<Rightarrow> uri \<Rightarrow> string" where
  "parseAor c u =
     (let dom = (if ipv4_literal (host u)
                 then (case domain c of Some d \<Rightarrow> d | None \<Rightarrow> host u)
                 else host u)
      in (if truthy_str (user u) then tpl (user u) else ''undefined'') @ ''@'' @ dom)"

text \<open>
  \<open>parseEventHeader\<close>. The expression \<^verbatim>\<open>/^(.*);(.*)$/\<close> is greedy, so it cuts at the
  last semicolon, and it matches nothing when the text holds a line terminator. The
  identifier is what follows the first \<open>id=\<close> of the second part, up to the first of
  the characters \<open>/\<close>, \<open>s\<close> and \<open>;\<close> (the class is written \<^verbatim>\<open>[^//s;]\<close>).
\<close>

record event_header =
  hdr_event :: string
  hdr_id :: "string option"

fun after_id :: "string \<Rightarrow> string option" where
  "after_id [] = None"
| "after_id (c # cs) = (if prefix ''id='' (c # cs) then Some (drop 3 (c # cs)) else after_id cs)"

definition parseEventHeader :: "string \<Rightarrow> event_header" where
  "parseEventHeader e =
     (if CHR '';'' \<notin> set e \<or> CHR 0x0A \<in> set e \<or> CHR 0x0D \<in> set e
      then \<lparr>hdr_event = e, hdr_id = None\<rparr>
      else
        (let second = rev (takeWhile (\<lambda>c. c \<noteq> CHR '';'') (rev e));
             first = take (length e - length second - 1) e
         in \<lparr>hdr_event = trim first,
             hdr_id = (case after_id second of
                         None \<Rightarrow> None
                       | Some r \<Rightarrow> Some (takeWhile (\<lambda>c. c \<notin> set ''/s;'') r))\<rparr>))"

text \<open>
  \<open>getDefaultSubscriptionExpiry\<close>: 3600 when the configuration has no table or no entry
  for the package, the entry's \<open>expires\<close> otherwise. The package is \<open>None\<close> when the
  caller passes \<open>undefined\<close>, which equals no key.
\<close>

definition getDefaultSubscriptionExpiry :: "config \<Rightarrow> string option \<Rightarrow> jsnum" where
  "getDefaultSubscriptionExpiry c package =
     (case expire_default c of
        None \<Rightarrow> Num 3600
      | Some table \<Rightarrow>
          (case package of
             None \<Rightarrow> Num 3600
           | Some p \<Rightarrow> (case table p of None \<Rightarrow> Num 3600 | Some e \<Rightarrow> e)))"

section \<open>The store\<close>

text \<open>
  The remote store is a Redis keyspace. A key holds a hash (a field list, as
  \<open>hgetall\<close> returns it), a set (its members in the order \<open>smembers\<close> lists them), a
  string, or a sorted set (its members with their scores, in ascending score order, the
  order \<open>zrangebyscore -inf +inf\<close> lists them), together with the time to live that
  \<open>EXPIRE\<close> gave it, in seconds. A key whose time ran out is a key that is absent; the
  model has no clock.
\<close>

datatype sval =
    Hash "(string \<times> string) list"
  | SetV "string list"
  | StrV string
  | ZSetV "(string \<times> int) list"

type_synonym store = "string \<rightharpoonup> (sval \<times> int option)"

datatype error = TypeError | AssertionError | StoreError | WrongType | TransportError

text \<open>
  Every store command is asynchronous and can be rejected. Which commands the connection
  rejects is a parameter of the model: \<open>F c\<close> says that commands of kind \<open>c\<close> fail.
\<close>

datatype cmd = HGETALL | DEL | SADD | SREM | SMEMBERS | GET | EXEC | ZRANGEBYSCORE | ZREM

definition hgetall :: "(cmd \<Rightarrow> bool) \<Rightarrow> store \<Rightarrow> string \<Rightarrow> error + (string \<times> string) list option" where
  \<comment> \<open>the client answers \<open>null\<close> for a key that holds no field\<close>
  "hgetall F s k =
     (if F HGETALL then Inl StoreError
      else (case s k of
              None \<Rightarrow> Inr None
            | Some (Hash h, _) \<Rightarrow> Inr (if h = [] then None else Some h)
            | Some _ \<Rightarrow> Inl WrongType))"

definition del :: "(cmd \<Rightarrow> bool) \<Rightarrow> store \<Rightarrow> string \<Rightarrow> error + store" where
  "del F s k = (if F DEL then Inl StoreError else Inr (s(k := None)))"

definition sadd :: "(cmd \<Rightarrow> bool) \<Rightarrow> store \<Rightarrow> string \<Rightarrow> string \<Rightarrow> error + store" where
  "sadd F s k m =
     (if F SADD then Inl StoreError
      else (case s k of
              None \<Rightarrow> Inr (s(k \<mapsto> (SetV [m], None)))
            | Some (SetV ms, t) \<Rightarrow> Inr (s(k \<mapsto> (SetV (if m \<in> set ms then ms else ms @ [m]), t)))
            | Some _ \<Rightarrow> Inl WrongType))"

definition srem :: "(cmd \<Rightarrow> bool) \<Rightarrow> store \<Rightarrow> string \<Rightarrow> string \<Rightarrow> error + store" where
  \<comment> \<open>a set that loses its last member is a key that is removed\<close>
  "srem F s k m =
     (if F SREM then Inl StoreError
      else (case s k of
              None \<Rightarrow> Inr s
            | Some (SetV ms, t) \<Rightarrow>
                Inr (if removeAll m ms = [] then s(k := None)
                     else s(k \<mapsto> (SetV (removeAll m ms), t)))
            | Some _ \<Rightarrow> Inl WrongType))"

definition smembers :: "(cmd \<Rightarrow> bool) \<Rightarrow> store \<Rightarrow> string \<Rightarrow> error + string list" where
  "smembers F s k =
     (if F SMEMBERS then Inl StoreError
      else (case s k of
              None \<Rightarrow> Inr []
            | Some (SetV ms, _) \<Rightarrow> Inr ms
            | Some _ \<Rightarrow> Inl WrongType))"

definition get_str :: "(cmd \<Rightarrow> bool) \<Rightarrow> store \<Rightarrow> string \<Rightarrow> error + string option" where
  "get_str F s k =
     (if F GET then Inl StoreError
      else (case s k of
              None \<Rightarrow> Inr None
            | Some (StrV v, _) \<Rightarrow> Inr (Some v)
            | Some _ \<Rightarrow> Inl WrongType))"

definition zrangebyscore_all :: "(cmd \<Rightarrow> bool) \<Rightarrow> store \<Rightarrow> string \<Rightarrow> error + string list" where
  "zrangebyscore_all F s k =
     (if F ZRANGEBYSCORE then Inl StoreError
      else (case s k of
              None \<Rightarrow> Inr []
            | Some (ZSetV zs, _) \<Rightarrow> Inr (map fst zs)
            | Some _ \<Rightarrow> Inl WrongType))"

definition zrem :: "(cmd \<Rightarrow> bool) \<Rightarrow> store \<Rightarrow> string \<Rightarrow> string \<Rightarrow> error + store" where
  "zrem F s k m =
     (if F ZREM then Inl StoreError
      else (case s k of
              None \<Rightarrow> Inr s
            | Some (ZSetV zs, t) \<Rightarrow>
                Inr (if filter (\<lambda>e. fst e \<noteq> m) zs = [] then s(k := None)
                     else s(k \<mapsto> (ZSetV (filter (\<lambda>e. fst e \<noteq> m) zs), t)))
            | Some _ \<Rightarrow> Inl WrongType))"

text \<open>
  A command that is sent and not awaited (or awaited behind its own \<open>catch\<close>): when it is
  rejected the store is as before and the caller goes on.
\<close>

definition forget :: "store \<Rightarrow> error + store \<Rightarrow> store" where
  "forget s r = (case r of Inl _ \<Rightarrow> s | Inr s' \<Rightarrow> s')"

text \<open>
  A transaction (\<open>multi() ... execAsync()\<close>) queues commands and runs them together.
  \<open>EXEC\<close> as a whole can be rejected; a queued command that fails on the server (a key
  of the wrong kind, a time to live that is not an integer) leaves its key as it was and
  the others still run. \<open>EXPIRE\<close> with a time that is not positive removes the key.
\<close>

datatype mcmd =
    HMSET string "(string \<times> string) list"
  | EXPIRE string jsnum
  | SETSTR string string
  | MDEL string

definition hash_merge :: "(string \<times> string) list \<Rightarrow> (string \<times> string) list \<Rightarrow> (string \<times> string) list" where
  "hash_merge old new = filter (\<lambda>p. fst p \<notin> set (map fst new)) old @ new"

fun run_mcmd :: "store \<Rightarrow> mcmd \<Rightarrow> store" where
  "run_mcmd s (HMSET k h) =
     (case s k of
        None \<Rightarrow> s(k \<mapsto> (Hash h, None))
      | Some (Hash h0, t) \<Rightarrow> s(k \<mapsto> (Hash (hash_merge h0 h), t))
      | Some _ \<Rightarrow> s)"
| "run_mcmd s (EXPIRE k t) =
     (case s k of
        None \<Rightarrow> s
      | Some (v, _) \<Rightarrow>
          (case t of
             Num n \<Rightarrow> if n \<le> 0 then s(k := None) else s(k \<mapsto> (v, Some n))
           | _ \<Rightarrow> s))"
| "run_mcmd s (SETSTR k v) = s(k \<mapsto> (StrV v, None))"
| "run_mcmd s (MDEL k) = s(k := None)"

definition exec :: "(cmd \<Rightarrow> bool) \<Rightarrow> store \<Rightarrow> mcmd list \<Rightarrow> error + store" where
  "exec F s cs = (if F EXEC then Inl StoreError else Inr (foldl run_mcmd s cs))"

section \<open>The objects of the lifecycle engine\<close>

text \<open>
  A dialog of the SIP library (\<open>dlg.id\<close>, \<open>dlg.sip.callId\<close>, \<open>dlg.sip.remoteTag\<close>),
  the object \<open>validate\<close> stores in \<open>req.event\<close> (properties that are \<open>undefined\<close> are
  omitted), and the object \<open>dialogAddSubscription\<close> builds and returns.
\<close>

record dialog =
  dlg_id :: string
  sip_callId :: string
  sip_remoteTag :: string

record event =
  subscriber :: string
  resource :: string
  eventType :: string
  ev_id :: "string option"
  accept :: "string option"
  callId :: "string option"

record subscriptionData =
  sd_aor :: "string option"
  dialogId :: string
  count :: int
  etag :: string
  sd_id :: string
  notifyType :: string

text \<open>
  JavaScript checks no parameter types, and the functions of \<open>subscribe.js\<close> are called
  with their arguments in more than one order. A parameter therefore holds any of the
  values the callers pass: \<open>undefined\<close> (also a parameter the caller left out), a
  boolean, the logger, the store object, a dialog, a \<open>req.event\<close> object or a
  subscription-data object. Reading a property of \<open>undefined\<close> throws a TypeError;
  reading a property an object does not have gives \<open>undefined\<close>.
\<close>

datatype arg =
    AUndef
  | ABool bool
  | ALogger
  | ADb
  | ADlg dialog
  | AEvent event
  | AData subscriptionData

fun arg_truthy :: "arg \<Rightarrow> bool" where
  "arg_truthy AUndef = False"
| "arg_truthy (ABool b) = b"
| "arg_truthy _ = True"

text \<open>The properties read from a parameter that is not \<open>undefined\<close>.\<close>

fun arg_id :: "arg \<Rightarrow> string option" where
  "arg_id (ADlg d) = Some (dlg_id d)"
| "arg_id (AEvent e) = ev_id e"
| "arg_id (AData sd) = Some (sd_id sd)"
| "arg_id _ = None"

fun arg_eventType :: "arg \<Rightarrow> string option" where
  "arg_eventType (AEvent e) = Some (eventType e)"
| "arg_eventType _ = None"

fun arg_subscriber :: "arg \<Rightarrow> string option" where
  "arg_subscriber (AEvent e) = Some (subscriber e)"
| "arg_subscriber _ = None"

fun arg_resource :: "arg \<Rightarrow> string option" where
  "arg_resource (AEvent e) = Some (resource e)"
| "arg_resource _ = None"

fun arg_callId :: "arg \<Rightarrow> string option" where
  "arg_callId (AEvent e) = callId e"
| "arg_callId _ = None"

text \<open>A NOTIFY request: the dialog it is sent on, its headers and its body.\<close>

record notify_req =
  via :: "string option"
  n_callId :: "string option"
  n_state :: string
  n_event :: "string option"
  n_ctype :: "string option"
  n_body :: "string option"

text \<open>
  A timer armed by \<open>setTimeout\<close>: the arguments bound to \<open>_expireSubscription\<close> and the
  delay in milliseconds. An entry of the module-level map \<open>dialogs\<close> is a list of
  \<open>{subscription, timer}\<close> objects.
\<close>

record timer_rec =
  t_logger :: arg
  t_db :: arg
  t_dlg :: arg
  t_sub :: arg
  t_delay :: jsnum

record binding =
  subscription :: arg
  timer :: nat

text \<open>
  The state the handlers act on: the store, the map \<open>dialogs\<close> (keyed by the value of
  \<open>dlg.id\<close>, which is \<open>undefined\<close> for an object without one), the armed timers by
  handle, the dialogs that have their \<open>subscribe\<close> and \<open>unsubscribe\<close> listeners with
  the subscription those closures hold, the NOTIFY requests sent, the responses sent
  (status and \<open>Expires\<close> header), and the errors that left a handler uncaught.
\<close>

record world =
  kv :: store
  dialogs :: "string option \<rightharpoonup> binding list"
  armed :: "(nat \<times> timer_rec) list"
  next_timer :: nat
  listeners :: "(string \<times> arg) list"
  sent :: "notify_req list"
  responses :: "(nat \<times> jsnum option) list"
  unhandled :: "error list"

text \<open>
  What a handler run depends on besides the state: the configuration; the event types for
  which the registry \<open>lib/events\<close> (not among the sources) loaded a package, the dialog
  package being the only one there is; the store commands that fail; the result of
  \<open>srf.createUAS\<close> (\<open>None\<close> when it is rejected) and the status it answers with; the
  NOTIFY requests the transport rejects; and the two fresh identifiers \<open>generateETag()\<close>
  and \<open>translator.new()\<close> return.
\<close>

record env =
  cfg :: config
  packages :: "string list"
  faulty :: "cmd \<Rightarrow> bool"
  uas :: "dialog option"
  uas_status :: nat
  request_fails :: "notify_req \<Rightarrow> bool"
  new_etag :: string
  new_uuid :: string

definition has_package :: "env \<Rightarrow> string option \<Rightarrow> bool" where
  \<comment> \<open>\<open>this.eventPackages[eventType]\<close>\<close>
  "has_package E t = (tpl t \<in> set (packages E))"

definition respond :: "nat \<Rightarrow> jsnum option \<Rightarrow> world \<Rightarrow> world" where
  "respond status expires w = w\<lparr>responses := responses w @ [(status, expires)]\<rparr>"

section \<open>The timer map (subscribe.js, lines 135 to 152)\<close>

definition startSubscriptionTimer :: "arg \<Rightarrow> arg \<Rightarrow> arg \<Rightarrow> arg \<Rightarrow> jsnum \<Rightarrow> world \<Rightarrow> error option \<times> world" where
  "startSubscriptionTimer logger db dlg subscr expiry w =
     (let h = next_timer w;
          w1 = w\<lparr>armed := armed w @ [(h, \<lparr>t_logger = logger, t_db = db, t_dlg = dlg,
                                          t_sub = subscr, t_delay = times1000 expiry\<rparr>)],
                 next_timer := h + 1\<rparr>
      in (case dlg of
            AUndef \<Rightarrow> (Some TypeError, w1)
          | _ \<Rightarrow>
              (let subs = (case dialogs w1 (arg_id dlg) of None \<Rightarrow> [] | Some xs \<Rightarrow> xs)
               in (None, w1\<lparr>dialogs := (dialogs w1)(arg_id dlg \<mapsto>
                                 subs @ [\<lparr>subscription = subscr, timer = h\<rparr>])\<rparr>))))"

definition clearTimeout :: "nat \<Rightarrow> world \<Rightarrow> world" where
  "clearTimeout h w = w\<lparr>armed := filter (\<lambda>p. fst p \<noteq> h) (armed w)\<rparr>"

text \<open>
  \<open>_.remove(subs, pred)\<close> answers the empty array for \<open>undefined\<close> and for an empty array;
  otherwise it evaluates the predicate on every element first, and only then removes the
  matching elements from the array in place, so an exception in the predicate changes
  nothing, while the assertion that follows fails after the removal was done.
\<close>

definition same_type :: "arg \<Rightarrow> binding \<Rightarrow> bool" where
  \<comment> \<open>\<open>s.subscription.eventType === subscription.eventType\<close>\<close>
  "same_type subscr s = (arg_eventType (subscription s) = arg_eventType subscr)"

definition clearSubscriptionTimer :: "arg \<Rightarrow> arg \<Rightarrow> arg \<Rightarrow> arg \<Rightarrow> arg \<Rightarrow> world \<Rightarrow> error option \<times> world" where
  "clearSubscriptionTimer logger db dlg subscr andCancel w =
     (case dlg of
        AUndef \<Rightarrow> (Some TypeError, w)
      | _ \<Rightarrow>
          (case dialogs w (arg_id dlg) of
             None \<Rightarrow> (Some AssertionError, w)
           | Some subs \<Rightarrow>
               if subs = [] then (Some AssertionError, w)
               else if subscr = AUndef \<or> list_ex (\<lambda>s. subscription s = AUndef) subs
               then (Some TypeError, w)
               else
                 (let arr = filter (same_type subscr) subs;
                      rest = filter (\<lambda>s. \<not> same_type subscr s) subs;
                      w1 = w\<lparr>dialogs := (dialogs w)(arg_id dlg \<mapsto> rest)\<rparr>
                  in (case arr of
                        [a] \<Rightarrow>
                          (let w2 = (if arg_truthy andCancel then clearTimeout (timer a) w1 else w1)
                           in (None, if rest = []
                                     then w2\<lparr>dialogs := (dialogs w2)(arg_id dlg := None)\<rparr>
                                     else w2))
                      | _ \<Rightarrow> (Some AssertionError, w1)))))"

section \<open>The dialog event package (lib/events/packages/dialog.js)\<close>

text \<open>
  \<open>subscriptionData.count++\<close> converts the stored field to a number. The conversion
  is modelled for the empty string and for decimal integers, which is what
  \<open>dialogAddSubscription\<close> writes; every other text gives \<open>NaN\<close> here (JavaScript
  also reads fractions, exponents and radix prefixes).
\<close>

definition to_number :: "string option \<Rightarrow> jsnum" where
  "to_number v =
     (case v of
        None \<Rightarrow> NaN
      | Some s \<Rightarrow>
          (let t = trim s;
               neg = (case t of [] \<Rightarrow> False | c # _ \<Rightarrow> c = CHR ''-'');
               ds = (case t of [] \<Rightarrow> [] | c # r \<Rightarrow> if c = CHR ''-'' \<or> c = CHR ''+'' then r else t)
           in if t = [] then Num 0
              else if ds \<noteq> [] \<and> list_all is_digit ds
              then js_number ((if neg then - 1 else 1) * int (digits_value 10 ds))
              else NaN))"

definition nl :: string where
  "nl = [CHR 0x0A]"

text \<open>
  \<open>makeXmlContent(subscriptionData, dialogInfo)\<close>. Both arguments are field lists; a
  missing field is \<open>undefined\<close>, and an empty string is falsy like \<open>undefined\<close>.
  \<open>dialog_element\<close> is the function's local variable \<open>dialog\<close>, computed from the
  fields of \<open>dialogInfo\<close>.
\<close>

definition dialog_element :: "(string \<rightharpoonup> string) \<Rightarrow> string" where
  \<open>dialog_element f =
     (if truthy_str (f ''id'') then
        (if truthy_str (f ''remoteTag'') \<and> truthy_str (f ''localTag'') then
           ''<dialog id="'' @ tpl (f ''id'') @ ''" call-id="'' @ tpl (f ''callId'')
           @ ''" local-tag="'' @ tpl (f ''localTag'') @ ''" remote-tag="'' @ tpl (f ''remoteTag'')
           @ ''" direction="'' @ tpl (f ''direction'') @ ''"><state>'' @ tpl (f ''state'')
           @ ''</state></dialog>''
         else if truthy_str (f ''remoteTag'') then
           ''<dialog id="'' @ tpl (f ''id'') @ ''" call-id="'' @ tpl (f ''callId'')
           @ ''" remote-tag="'' @ tpl (f ''remoteTag'')
           @ ''" direction="'' @ tpl (f ''direction'') @ ''"><state>'' @ tpl (f ''state'')
           @ ''</state></dialog>''
         else if truthy_str (f ''localTag'') then
           ''<dialog id="'' @ tpl (f ''id'') @ ''" call-id="'' @ tpl (f ''callId'')
           @ ''" local-tag="'' @ tpl (f ''localTag'')
           @ ''" direction="'' @ tpl (f ''direction'') @ ''"><state>'' @ tpl (f ''state'')
           @ ''</state></dialog>''
         else
           ''<dialog id="'' @ tpl (f ''id'') @ ''" call-id="'' @ tpl (f ''callId'')
           @ ''" direction="'' @ tpl (f ''direction'') @ ''"><state>'' @ tpl (f ''state'')
           @ ''</state></dialog>'')
      else [])\<close>

definition makeXmlContent :: "(string \<times> string) list \<Rightarrow> (string \<times> string) list option \<Rightarrow> string" where
  \<open>makeXmlContent sd dialogInfo =
     (let f = map_of (case dialogInfo of None \<Rightarrow> [] | Some d \<Rightarrow> d);
          entity = (if truthy_str (f ''aor'') then f ''aor'' else map_of sd ''aor'')
      in ''<?xml version="1.0"?>'' @ nl
         @ ''<dialog-info xmlns="urn:ietf:params:xml:ns:dialog-info" '' @ nl
         @ ''   version="'' @ show_num (to_number (map_of sd ''count'')) @ ''" '' @ nl
         @ ''   state="full" '' @ nl
         @ ''   entity="'' @ tpl entity @ ''">'' @ nl
         @ ''   '' @ dialog_element f @ nl
         @ ''</dialog-info>'' @ nl
         @ nl)\<close>

text \<open>The state a NOTIFY is built from: \<open>state.contentType\<close> and \<open>state.content\<close>.\<close>

record evstate =
  st_contentType :: "string option"
  st_content :: "string option"

definition dialogGetEventState :: "env \<Rightarrow> store \<Rightarrow> string option \<Rightarrow> string option \<Rightarrow> evstate option" where
  \<comment> \<open>every error is caught and logged; the function then returns \<open>undefined\<close>\<close>
  "dialogGetEventState E s subscr res =
     (let key = makeDialogInfoKey (tpl res);
          subKey = makeSubscriptionName (tpl subscr) (tpl res)
      in (case hgetall (faulty E) s key of
            Inl _ \<Rightarrow> None
          | Inr dialogInfo \<Rightarrow>
              (case hgetall (faulty E) s subKey of
                 Inl _ \<Rightarrow> None
               | Inr None \<Rightarrow> None
               | Inr (Some sd) \<Rightarrow>
                   Some \<lparr>st_contentType = Some ''application/dialog-info+xml'',
                         st_content = Some (makeXmlContent sd dialogInfo)\<rparr>)))"

definition hash_of_sd :: "subscriptionData \<Rightarrow> (string \<times> string) list" where
  "hash_of_sd sd =
     [(''aor'', tpl (sd_aor sd)), (''dialogId'', dialogId sd), (''count'', show_int (count sd)),
      (''etag'', etag sd), (''id'', sd_id sd), (''notifyType'', notifyType sd)]"

text \<open>
  \<open>dialogAddSubscription\<close>. The \<open>sadd\<close> is sent first and has its own \<open>catch\<close>. Everything
  after it is inside one \<open>try\<close> whose \<open>catch\<close> logs and falls through, so a failed write
  makes the function return \<open>undefined\<close> instead of rejecting. Only the destructuring of
  \<open>obj\<close> is outside the \<open>try\<close>.
\<close>

definition dialogAddSubscription :: "env \<Rightarrow> arg \<Rightarrow> arg \<Rightarrow> jsnum \<Rightarrow> store \<Rightarrow> (error + arg) \<times> store" where
  "dialogAddSubscription E dlg obj expiry s =
     (case obj of
        AUndef \<Rightarrow> (Inl TypeError, s)
      | _ \<Rightarrow>
          (let subscriptionName = makeSubscriptionName (tpl (arg_subscriber obj)) (tpl (arg_resource obj));
               key = makeSubscribedResourceKey (tpl (arg_resource obj));
               s1 = forget s (sadd (faulty E) s key subscriptionName)
           in (case dlg of
                 ADlg d \<Rightarrow>
                   (let sd = \<lparr>sd_aor = arg_resource obj,
                              dialogId = sip_callId d @ '';from-tag='' @ sip_remoteTag d,
                              count = 0, etag = new_etag E, sd_id = new_uuid E,
                              notifyType = ''sip''\<rparr>
                    in (case exec (faulty E) s1 [HMSET subscriptionName (hash_of_sd sd),
                                                 EXPIRE subscriptionName expiry] of
                          Inl _ \<Rightarrow> (Inr AUndef, s1)
                        | Inr s2 \<Rightarrow> (Inr (AData sd), s2)))
               | _ \<Rightarrow> (Inr AUndef, s1))))"

definition dialogRemoveSubscription :: "env \<Rightarrow> arg \<Rightarrow> store \<Rightarrow> error option \<times> store" where
  "dialogRemoveSubscription E obj s =
     (case obj of
        AUndef \<Rightarrow> (Some TypeError, s)
      | _ \<Rightarrow>
          (let subscriptionName = makeSubscriptionName (tpl (arg_subscriber obj)) (tpl (arg_resource obj));
               key = makeSubscribedResourceKey (tpl (arg_resource obj))
           in (case srem (faulty E) s key subscriptionName of
                 Inl _ \<Rightarrow> (None, s)
               | Inr s1 \<Rightarrow> (None, forget s1 (del (faulty E) s1 subscriptionName)))))"

subsection \<open>The channel listener\<close>

definition MAX_CALL_LENGTH :: int where
  "MAX_CALL_LENGTH = 60 * 60 * 3"

definition nth_field :: "string list \<Rightarrow> nat \<Rightarrow> string option" where
  \<comment> \<open>array destructuring: a position past the end is \<open>undefined\<close>\<close>
  "nth_field xs i = (if i < length xs then Some (xs ! i) else None)"

definition defined_fields :: "(string \<times> string option) list \<Rightarrow> (string \<times> string) list" where
  "defined_fields ps = concat (map (\<lambda>p. case snd p of None \<Rightarrow> [] | Some v \<Rightarrow> [(fst p, v)]) ps)"

definition watcher_notify :: "(string \<times> string) list \<Rightarrow> (string \<times> string) list \<Rightarrow> notify_req" where
  "watcher_notify sd info =
     \<lparr>via = map_of sd ''dialogId'', n_callId = None, n_state = ''active'', n_event = None,
      n_ctype = Some ''application/dialog-info+xml'',
      n_body = Some (makeXmlContent sd (Some info))\<rparr>"

text \<open>
  The loop over the members of the watched-resource set. Each member has its own
  \<open>try\<close>: a read that fails or a NOTIFY the transport rejects is logged and the loop goes
  on. The response to a NOTIFY is only logged. The \<open>srem\<close> of a stale member is sent
  with its own \<open>catch\<close>.
\<close>

fun notify_watchers :: "env \<Rightarrow> string \<Rightarrow> (string \<times> string) list \<Rightarrow> string list \<Rightarrow> world \<Rightarrow> world" where
  "notify_watchers E key info [] w = w"
| "notify_watchers E key info (sub # rest) w =
     (case hgetall (faulty E) (kv w) sub of
        Inl _ \<Rightarrow> notify_watchers E key info rest w
      | Inr None \<Rightarrow>
          notify_watchers E key info rest
            (w\<lparr>kv := forget (kv w) (srem (faulty E) (kv w) key sub)\<rparr>)
      | Inr (Some sd) \<Rightarrow>
          notify_watchers E key info rest
            (if request_fails E (watcher_notify sd info) then w
             else w\<lparr>sent := sent w @ [watcher_notify sd info]\<rparr>))"

definition terminal_states :: "string list" where
  "terminal_states = [''terminated'', ''rejected'', ''cancelled'']"

definition onMessage :: "env \<Rightarrow> string \<Rightarrow> world \<Rightarrow> world" where
  "onMessage E msg w =
     (let fs = split_on CHR '' '' msg;
          aor = nth_field fs 0; i = nth_field fs 1; cid = nth_field fs 2;
          lTag = nth_field fs 3; rTag = nth_field fs 4;
          direction = nth_field fs 5; state = nth_field fs 6;
          localTag = (if lTag = Some ''undef'' then None else lTag);
          remoteTag = (if rTag = Some ''undef'' then None else rTag);
          key = makeDialogInfoKey (tpl aor);
          s1 = (if (case state of None \<Rightarrow> False | Some st \<Rightarrow> st \<in> set terminal_states)
                then forget (kv w) (del (faulty E) (kv w) key)
                else forget (kv w)
                       (exec (faulty E) (kv w)
                          [HMSET key
                             ([(''id'', tpl i), (''direction'', tpl direction),
                               (''state'', tpl state), (''callId'', tpl cid)]
                              @ (if truthy_str localTag then [(''localTag'', tpl localTag)] else [])
                              @ (if truthy_str remoteTag then [(''remoteTag'', tpl remoteTag)] else [])),
                           EXPIRE key (Num MAX_CALL_LENGTH)]));
          w1 = w\<lparr>kv := s1\<rparr>;
          key2 = makeSubscribedResourceKey (tpl aor);
          info = defined_fields [(''aor'', aor), (''id'', i), (''callId'', cid),
                                 (''localTag'', localTag), (''remoteTag'', remoteTag),
                                 (''direction'', direction), (''state'', state)]
      in (case smembers (faulty E) (kv w1) key2 of
            Inl _ \<Rightarrow> w1
          | Inr subs \<Rightarrow> notify_watchers E key2 info subs w1))"

section \<open>The store module: event state, subscriptions, purge\<close>

definition getEventState :: "env \<Rightarrow> store \<Rightarrow> string option \<Rightarrow> string option \<Rightarrow> string option \<Rightarrow> error + evstate option" where
  "getEventState E s subscr aor evType =
     (if has_package E evType then Inr (dialogGetEventState E s subscr aor)
      else (case hgetall (faulty E) s (makeEventStateKey (tpl aor) (tpl evType)) of
              Inl e \<Rightarrow> Inl e
            | Inr None \<Rightarrow> Inr None
            | Inr (Some h) \<Rightarrow>
                Inr (Some \<lparr>st_contentType = map_of h ''contentType'',
                           st_content = map_of h ''content''\<rparr>)))"

definition hash_of_event :: "arg \<Rightarrow> (string \<times> string) list" where
  "hash_of_event obj =
     (case obj of
        AEvent e \<Rightarrow>
          defined_fields [(''subscriber'', Some (subscriber e)), (''resource'', Some (resource e)),
                          (''eventType'', Some (eventType e)), (''id'', ev_id e),
                          (''accept'', accept e), (''callId'', callId e)]
      | AData sd \<Rightarrow> hash_of_sd sd
      | _ \<Rightarrow> [])"

text \<open>
  \<open>addSubscription\<close> and \<open>removeSubscription\<close> read \<open>obj.eventType\<close> first (a TypeError
  when \<open>obj\<close> is \<open>undefined\<close>) and hand over to the package when the registry has one
  for that type. The generic path writes its keys in one transaction, whose rejection the
  caller sees.
\<close>

definition addSubscription :: "env \<Rightarrow> arg \<Rightarrow> arg \<Rightarrow> jsnum \<Rightarrow> store \<Rightarrow> (error + arg) \<times> store" where
  "addSubscription E dlg obj expiry s =
     (case obj of
        AUndef \<Rightarrow> (Inl TypeError, s)
      | _ \<Rightarrow>
          if has_package E (arg_eventType obj) then dialogAddSubscription E dlg obj expiry s
          else
            (let key = makeSubStateKey (new_uuid E);
                 keyDialog = makeSubStateKeyDialog (tpl (arg_subscriber obj)) (tpl (arg_resource obj))
                               (tpl (arg_eventType obj)) (tpl (arg_callId obj));
                 keyId = makeSubStateKeyId (tpl (arg_subscriber obj)) (tpl (arg_resource obj))
                               (tpl (arg_eventType obj)) (tpl (arg_id obj))
             in (case exec (faulty E) s
                        ([HMSET key (hash_of_event obj), SETSTR keyDialog key,
                          EXPIRE key expiry, EXPIRE keyDialog expiry]
                         @ (if truthy_str (arg_id obj)
                            then [SETSTR keyId key, EXPIRE keyId expiry] else [])) of
                   Inl e \<Rightarrow> (Inl e, s)
                 | Inr s' \<Rightarrow> (Inr obj, s'))))"

definition removeSubscription :: "env \<Rightarrow> arg \<Rightarrow> store \<Rightarrow> error option \<times> store" where
  \<comment> \<open>a \<open>null\<close> argument of \<open>del\<close> is sent as the text \<open>null\<close>\<close>
  "removeSubscription E obj s =
     (case obj of
        AUndef \<Rightarrow> (Some TypeError, s)
      | _ \<Rightarrow>
          if has_package E (arg_eventType obj) then dialogRemoveSubscription E obj s
          else
            (let keyDialog = makeSubStateKeyDialog (tpl (arg_subscriber obj)) (tpl (arg_resource obj))
                               (tpl (arg_eventType obj)) (tpl (arg_callId obj));
                 keyId = makeSubStateKeyId (tpl (arg_subscriber obj)) (tpl (arg_resource obj))
                               (tpl (arg_eventType obj)) (tpl (arg_id obj))
             in (case get_str (faulty E) s keyDialog of
                   Inl e \<Rightarrow> (Some e, s)
                 | Inr v \<Rightarrow>
                     (case exec (faulty E) s
                             ([MDEL keyDialog, MDEL (case v of None \<Rightarrow> ''null'' | Some x \<Rightarrow> x)]
                              @ (if truthy_str (arg_id obj) then [MDEL keyId] else [])) of
                        Inl e \<Rightarrow> (Some e, s)
                      | Inr s' \<Rightarrow> (None, s')))))"

text \<open>
  \<open>purgeExpired\<close>: the members of the sorted index are read once; for each, a read of
  its key that answers \<open>null\<close> sends a \<open>zrem\<close> (not awaited) and counts it; a read that
  fails is caught and logged.
\<close>

fun purge_loop :: "(cmd \<Rightarrow> bool) \<Rightarrow> string list \<Rightarrow> store \<Rightarrow> nat \<Rightarrow> store \<times> nat" where
  "purge_loop F [] s n = (s, n)"
| "purge_loop F (a # arr) s n =
     (case hgetall F s a of
        Inl _ \<Rightarrow> purge_loop F arr s n
      | Inr (Some _) \<Rightarrow> purge_loop F arr s n
      | Inr None \<Rightarrow> purge_loop F arr (forget s (zrem F s ZSET a)) (n + 1))"

definition purgeExpired :: "(cmd \<Rightarrow> bool) \<Rightarrow> store \<Rightarrow> error + store \<times> nat" where
  "purgeExpired F s =
     (case zrangebyscore_all F s ZSET of
        Inl e \<Rightarrow> Inl e
      | Inr arr \<Rightarrow> Inr (purge_loop F arr s 0))"

section \<open>The lifecycle engine (lib/subscribe.js)\<close>

text \<open>
  A request as the engine reads it: the headers (\<open>req.has\<close>, \<open>req.get\<close>), the parsed
  URIs of \<open>From\<close> and \<open>To\<close>, and the two properties \<open>validate\<close> adds, \<open>req.event\<close> and
  \<open>req.expiry\<close>. A request that did not pass through \<open>validate\<close> has neither:
  \<open>req_event\<close> is \<open>None\<close> and \<open>req_expiry\<close> is \<open>Undefined\<close>.
\<close>

record request =
  headers :: "string \<rightharpoonup> string"
  from_uri :: uri
  to_uri :: uri
  req_event :: "event option"
  req_expiry :: jsnum

definition as_arg :: "event option \<Rightarrow> arg" where
  "as_arg e = (case e of None \<Rightarrow> AUndef | Some x \<Rightarrow> AEvent x)"

definition header_expiry :: "config \<Rightarrow> request \<Rightarrow> string option \<Rightarrow> jsnum" where
  \<comment> \<open>\<open>req.has('Expires') ? parseInt(req.get('Expires')) : getDefaultSubscriptionExpiry(package)\<close>\<close>
  "header_expiry c req package =
     (case headers req ''Expires'' of
        Some x \<Rightarrow> parseInt x
      | None \<Rightarrow> getDefaultSubscriptionExpiry c package)"

definition validate :: "env \<Rightarrow> request \<Rightarrow> world \<Rightarrow> bool \<times> request \<times> world" where
  "validate E req w =
     (case headers req ''Event'' of
        None \<Rightarrow> (False, req, respond 400 None w)
      | Some h \<Rightarrow>
          (let p = parseEventHeader h
           in if hdr_event p \<notin> set (supportedEvents (cfg E))
              then (False, req, respond 489 None w)
              else
                (let req1 = req\<lparr>req_event :=
                                   Some \<lparr>subscriber = parseAor (cfg E) (from_uri req),
                                         resource = parseAor (cfg E) (to_uri req),
                                         eventType = hdr_event p,
                                         ev_id = hdr_id p,
                                         accept = headers req ''Accept'',
                                         callId = headers req ''Call-ID''\<rparr>,
                                 req_expiry := header_expiry (cfg E) req (Some (hdr_event p))\<rparr>
                 in if req_expiry req1 = Num 0
                    then (False, req1, respond 200 None w)
                    else (True, req1, w))))"

text \<open>
  \<open>notify\<close> is an async function: whatever it throws is a rejection of the promise it
  returns. \<open>dlg.request\<close> is not awaited; a NOTIFY the transport rejects is not sent and
  its rejection is caught by nobody.
\<close>

definition notify :: "env \<Rightarrow> arg \<Rightarrow> arg \<Rightarrow> arg \<Rightarrow> arg \<Rightarrow> string \<Rightarrow> world \<Rightarrow> error option \<times> world" where
  "notify E logger db sub dlg subscriptionState w =
     (case sub of
        AUndef \<Rightarrow> (Some TypeError, w)
      | _ \<Rightarrow>
          (case db of
             ADb \<Rightarrow>
               (case getEventState E (kv w) (arg_subscriber sub) (arg_resource sub) (arg_eventType sub) of
                  Inl e \<Rightarrow> (Some e, w)
                | Inr state \<Rightarrow>
                    (case dlg of
                       ADlg d \<Rightarrow>
                         (let with_body = (state \<noteq> None \<and> subscriptionState \<noteq> ''terminated'');
                              n = \<lparr>via = Some (dlg_id d),
                                   n_callId = arg_callId sub,
                                   n_state = subscriptionState,
                                   n_event = arg_eventType sub,
                                   n_ctype = (case state of
                                                Some st \<Rightarrow> if with_body then st_contentType st else None
                                              | None \<Rightarrow> None),
                                   n_body = (case state of
                                               Some st \<Rightarrow> if with_body then st_content st else None
                                             | None \<Rightarrow> None)\<rparr>
                          in (None, if request_fails E n
                                    then w\<lparr>unhandled := unhandled w @ [TransportError]\<rparr>
                                    else w\<lparr>sent := sent w @ [n]\<rparr>))
                     | _ \<Rightarrow> (Some TypeError, w)))
           | _ \<Rightarrow> (Some TypeError, w)))"

definition unhandled_error :: "error option \<times> world \<Rightarrow> world" where
  \<comment> \<open>an exception or rejection nobody catches\<close>
  "unhandled_error r =
     (case fst r of
        None \<Rightarrow> snd r
      | Some e \<Rightarrow> (snd r)\<lparr>unhandled := unhandled (snd r) @ [e]\<rparr>)"

text \<open>
  \<open>initial\<close>. \<open>createUAS\<close> answers the request itself when it succeeds. The last call,
  \<open>notify\<close>, is not awaited, so its rejection is outside the \<open>try\<close>.
\<close>

definition initial :: "env \<Rightarrow> arg \<Rightarrow> request \<Rightarrow> world \<Rightarrow> world" where
  "initial E logger req w =
     (case uas E of
        None \<Rightarrow> respond 480 None w
      | Some d \<Rightarrow>
          (let w1 = respond (uas_status E) (Some (req_expiry req)) w
           in (case addSubscription E (ADlg d) (as_arg (req_event req)) (req_expiry req) (kv w1) of
                 (Inl e, s2) \<Rightarrow> respond 480 None (w1\<lparr>kv := s2\<rparr>)
               | (Inr sub, s2) \<Rightarrow>
                   (let w3 = w1\<lparr>kv := s2, listeners := listeners w1 @ [(dlg_id d, sub)]\<rparr>
                    in (case startSubscriptionTimer logger ADb (ADlg d) sub (req_expiry req) w3 of
                          (Some e, w4) \<Rightarrow> respond 480 None w4
                        | (None, w4) \<Rightarrow>
                            unhandled_error
                              (notify E logger ADb (as_arg (req_event req)) (ADlg d) ''active'' w4))))))"

definition subscribe_handler :: "env \<Rightarrow> request \<Rightarrow> world \<Rightarrow> world" where
  \<comment> \<open>the exported middleware: \<open>if (validate(logger, req, res)) initial(logger, req, res)\<close>\<close>
  "subscribe_handler E req w =
     (case validate E req w of
        (True, req1, w1) \<Rightarrow> initial E ALogger req1 w1
      | (False, req1, w1) \<Rightarrow> w1)"

text \<open>
  \<open>refresh\<close>, the listener of an in-dialog SUBSCRIBE. It computes \<open>expiry\<close> from the
  request's headers (the package it looks up is the whole \<open>Event\<close> header), and passes
  \<open>req.event\<close> and \<open>req.expiry\<close> to \<open>addSubscription\<close>. The first argument of
  \<open>startSubscriptionTimer\<close> (the logger) is \<open>dlg\<close>.
\<close>

definition refresh_expiry :: "config \<Rightarrow> request \<Rightarrow> jsnum" where
  "refresh_expiry c req =
     (let v = header_expiry c req (headers req ''Event'')
      in if truthy v then v else Num 3600)"

definition refresh :: "env \<Rightarrow> arg \<Rightarrow> arg \<Rightarrow> request \<Rightarrow> arg \<Rightarrow> arg \<Rightarrow> world \<Rightarrow> world" where
  "refresh E logger db req dlg subscr w =
     (let expiry = refresh_expiry (cfg E) req
      in (case clearSubscriptionTimer logger db dlg subscr (ABool True) w of
            (Some e, w1) \<Rightarrow> respond 480 None w1
          | (None, w1) \<Rightarrow>
              (case removeSubscription E subscr (kv w1) of
                 (Some e, s2) \<Rightarrow> respond 480 None (w1\<lparr>kv := s2\<rparr>)
               | (None, s2) \<Rightarrow>
                   (case addSubscription E dlg (as_arg (req_event req)) (req_expiry req) s2 of
                      (Inl e, s3) \<Rightarrow> respond 480 None (w1\<lparr>kv := s3\<rparr>)
                    | (Inr subscr', s3) \<Rightarrow>
                        (case startSubscriptionTimer dlg db dlg subscr' expiry (w1\<lparr>kv := s3\<rparr>) of
                           (Some e, w4) \<Rightarrow> respond 480 None w4
                         | (None, w4) \<Rightarrow>
                             (case notify E logger db subscr' dlg ''active''
                                     (respond 202 (Some expiry) w4) of
                                (Some e, w6) \<Rightarrow> respond 480 None w6
                              | (None, w6) \<Rightarrow> w6))))))"

text \<open>
  \<open>remove\<close>, the listener of an in-dialog unsubscribe. Nothing catches what it throws.
  Its last line is \<open>clearSubscriptionTimer(dlg, db, subscription, true)\<close>: four arguments
  for the five parameters \<open>(logger, db, dlg, subscription, andCancel)\<close>.
\<close>

definition remove :: "env \<Rightarrow> arg \<Rightarrow> arg \<Rightarrow> request \<Rightarrow> arg \<Rightarrow> arg \<Rightarrow> world \<Rightarrow> world" where
  "remove E logger db req dlg subscr w =
     (case notify E logger db subscr dlg ''terminated'' w of
        (Some e, w1) \<Rightarrow> unhandled_error (Some e, w1)
      | (None, w1) \<Rightarrow>
          (case removeSubscription E subscr (kv w1) of
             (Some e, s2) \<Rightarrow> unhandled_error (Some e, w1\<lparr>kv := s2\<rparr>)
           | (None, s2) \<Rightarrow>
               unhandled_error
                 (clearSubscriptionTimer dlg db subscr (ABool True) AUndef (w1\<lparr>kv := s2\<rparr>))))"

text \<open>
  \<open>_expireSubscription\<close>, the timer's callback. It calls \<open>logger.info\<close> (a TypeError
  when the bound logger has no such method) with \<open>dlg.sip.callId\<close> in the message, starts
  \<open>notify\<close> without awaiting it, and ends with
  \<open>clearSubscriptionTimer(logger, dlg, subscription)\<close>: three arguments for the five
  parameters. \<open>notify\<close> is an async function whose first statement awaits the read of
  the event state, so when it is started it only issues that read; the NOTIFY request is
  sent in its continuation, which runs after the callback has returned.
  \<open>clearSubscriptionTimer\<close> runs synchronously, inside the callback. When it throws, the
  exception leaves the timer callback; \<open>app.js\<close> installs no handler for uncaught
  exceptions, so the process ends there and the continuation of \<open>notify\<close> never runs:
  the error is recorded in \<open>unhandled\<close> and nothing is sent. When it returns, the
  continuation of \<open>notify\<close> runs next.
\<close>

definition expireSubscription :: "env \<Rightarrow> arg \<Rightarrow> arg \<Rightarrow> arg \<Rightarrow> arg \<Rightarrow> world \<Rightarrow> world" where
  "expireSubscription E logger db dlg subscr w =
     (case (logger, dlg) of
        (ALogger, ADlg d) \<Rightarrow>
          (case clearSubscriptionTimer logger dlg subscr AUndef AUndef w of
             (Some e, w1) \<Rightarrow> unhandled_error (Some e, w1)
           | (None, w1) \<Rightarrow> unhandled_error (notify E logger db subscr dlg ''terminated'' w1))
      | _ \<Rightarrow> unhandled_error (Some TypeError, w))"

definition fire :: "env \<Rightarrow> nat \<Rightarrow> world \<Rightarrow> world" where
  \<comment> \<open>the timer with handle \<open>h\<close> runs out\<close>
  "fire E h w =
     (case map_of (armed w) h of
        None \<Rightarrow> w
      | Some t \<Rightarrow>
          expireSubscription E (t_logger t) (t_db t) (t_dlg t) (t_sub t)
            (w\<lparr>armed := filter (\<lambda>p. fst p \<noteq> h) (armed w)\<rparr>))"

section \<open>Vocabulary of the properties\<close>

text \<open>
  A key has no record when reading it with \<open>hgetall\<close> answers \<open>null\<close>; it has a live
  record when the read answers its fields.
\<close>

definition no_record :: "store \<Rightarrow> string \<Rightarrow> bool" where
  "no_record s k = (case s k of None \<Rightarrow> True | Some (Hash h, _) \<Rightarrow> h = [] | Some _ \<Rightarrow> False)"

definition live_record :: "store \<Rightarrow> string \<Rightarrow> (string \<times> string) list option" where
  "live_record s k = (case s k of Some (Hash h, _) \<Rightarrow> if h = [] then None else Some h | _ \<Rightarrow> None)"

definition set_members :: "store \<Rightarrow> string \<Rightarrow> string list" where
  "set_members s k = (case s k of Some (SetV ms, _) \<Rightarrow> ms | _ \<Rightarrow> [])"

definition zset_entries :: "store \<Rightarrow> (string \<times> int) list" where
  "zset_entries s = (case s ZSET of Some (ZSetV zs, _) \<Rightarrow> zs | _ \<Rightarrow> [])"

text \<open>
  The NOTIFY requests a fan-out over the members \<open>ms\<close> is expected to send, in order: one
  for each member with a live record in \<open>s\<close>, unless the transport rejects that request.
\<close>

definition fanout :: "env \<Rightarrow> store \<Rightarrow> (string \<times> string) list \<Rightarrow> string list \<Rightarrow> notify_req list" where
  "fanout E s info ms =
     concat (map (\<lambda>m. case live_record s m of
                         None \<Rightarrow> []
                       | Some sd \<Rightarrow> if request_fails E (watcher_notify sd info) then []
                                   else [watcher_notify sd info]) ms)"

text \<open>The dialog information a channel message of seven fields carries.\<close>

definition message_info :: "string \<Rightarrow> string \<Rightarrow> string \<Rightarrow> string \<Rightarrow> string \<Rightarrow> string \<Rightarrow> string \<Rightarrow> (string \<times> string) list" where
  "message_info aor i cid lt rt dir st =
     defined_fields [(''aor'', Some aor), (''id'', Some i), (''callId'', Some cid),
                     (''localTag'', if lt = ''undef'' then None else Some lt),
                     (''remoteTag'', if rt = ''undef'' then None else Some rt),
                     (''direction'', Some dir), (''state'', Some st)]"

text \<open>
  The invariant of the timer map: every value is a non-empty list with at most one pair
  per event type.
\<close>

definition binding_types :: "binding list \<Rightarrow> string option list" where
  "binding_types subs = map (\<lambda>s. arg_eventType (subscription s)) subs"

definition timer_map_ok :: "(string option \<rightharpoonup> binding list) \<Rightarrow> bool" where
  "timer_map_ok D = (\<forall>k subs. D k = Some subs \<longrightarrow> subs \<noteq> [] \<and> distinct (binding_types subs))"

subsection \<open>A worked deployment\<close>

text \<open>
  The deployment of the README: \<open>SUPPORTED_EVENTS=dialog\<close>, the dialog package loaded
  for that type, no fault. Alice subscribes to Bob's dialog state.
\<close>

definition ex_cfg :: config where
  "ex_cfg = \<lparr>supportedEvents = [''dialog''], expire_default = None, domain = None\<rparr>"

definition ex_dialog :: dialog where
  "ex_dialog = \<lparr>dlg_id = ''d1'', sip_callId = ''c1'', sip_remoteTag = ''t1''\<rparr>"

definition ex_env :: env where
  "ex_env = \<lparr>cfg = ex_cfg, packages = [''dialog''], faulty = (\<lambda>_. False),
             uas = Some ex_dialog, uas_status = 202, request_fails = (\<lambda>_. False),
             new_etag = ''4718'', new_uuid = ''u1''\<rparr>"

definition ex_world :: world where
  "ex_world = \<lparr>kv = Map.empty, dialogs = Map.empty, armed = [], next_timer = 0, listeners = [],
               sent = [], responses = [], unhandled = []\<rparr>"

definition ex_request :: "string \<Rightarrow> request" where
  \<comment> \<open>a SUBSCRIBE as the transport delivers it, with the given \<open>Expires\<close> header\<close>
  "ex_request expires =
     \<lparr>headers = [''Event'' \<mapsto> ''dialog'', ''Expires'' \<mapsto> expires, ''Call-ID'' \<mapsto> ''c1''],
      from_uri = \<lparr>user = Some ''alice'', host = ''example.com''\<rparr>,
      to_uri = \<lparr>user = Some ''bob'', host = ''example.com''\<rparr>,
      req_event = None, req_expiry = Undefined\<rparr>"

definition ex_sub :: arg where
  \<comment> \<open>what \<open>addSubscription\<close> returns for that SUBSCRIBE, held by the dialog's listeners\<close>
  "ex_sub = AData \<lparr>sd_aor = Some ''bob@example.com'', dialogId = ''c1;from-tag=t1'', count = 0,
                   etag = ''4718'', sd_id = ''u1'', notifyType = ''sip''\<rparr>"

definition subscribed_world :: world where
  \<comment> \<open>after the initial SUBSCRIBE with \<open>Expires: 3600\<close>\<close>
  "subscribed_world = subscribe_handler ex_env (ex_request ''3600'') ex_world"

definition ex_index :: store where
  \<comment> \<open>a sorted index of two entries, the second without its record\<close>
  "ex_index =
     [ZSET \<mapsto> (ZSetV [(''es:bob@example.com:presence'', 11), (''es:carol@example.com:presence'', 12)], None),
      ''es:bob@example.com:presence'' \<mapsto> (Hash [(''aor'', ''bob@example.com'')], Some 60)]"

definition ex_watched :: world where
  \<comment> \<open>Bob is watched by Alice and Dave, whose records are live, and by Carol, whose record expired\<close>
  "ex_watched =
     ex_world\<lparr>kv :=
       [''watched-aor:bob@example.com'' \<mapsto>
          (SetV [''dlg-sub:alice@example.com-bob@example.com'',
                 ''dlg-sub:carol@example.com-bob@example.com'',
                 ''dlg-sub:dave@example.com-bob@example.com''], None),
        ''dlg-sub:alice@example.com-bob@example.com'' \<mapsto>
          (Hash [(''aor'', ''bob@example.com''), (''dialogId'', ''c1;from-tag=t1''), (''count'', ''0'')],
           Some 3600),
        ''dlg-sub:dave@example.com-bob@example.com'' \<mapsto>
          (Hash [(''aor'', ''bob@example.com''), (''dialogId'', ''c4;from-tag=t4''), (''count'', ''0'')],
           Some 3600),
        ''dlg-info:$bob@example.com'' \<mapsto> (Hash [(''id'', ''77''), (''state'', ''confirmed'')], Some 10800)]\<rparr>"

definition ex_lossy :: env where
  \<comment> \<open>the transport rejects every NOTIFY on Alice's dialog\<close>
  "ex_lossy = ex_env\<lparr>request_fails := (\<lambda>n. via n = Some ''c1;from-tag=t1'')\<rparr>"

definition ex_env600 :: env where
  \<comment> \<open>the same deployment with a configured default of 600 seconds for the dialog package\<close>
  "ex_env600 = ex_env\<lparr>cfg := ex_cfg\<lparr>expire_default := Some [''dialog'' \<mapsto> Num 600]\<rparr>\<rparr>"


definition ex_validated :: request where
  \<comment> \<open>a request with no \<open>Expires\<close> header and an \<open>Event\<close> header with a parameter,
      carrying the \<open>req.event\<close> and \<open>req.expiry\<close> that \<open>validate\<close> computes for it\<close>
  "ex_validated =
     fst (snd (validate ex_env600
       ((ex_request ''0'')\<lparr>headers := [''Event'' \<mapsto> ''dialog;id=7'', ''Call-ID'' \<mapsto> ''c1'']\<rparr>) ex_world))"


section \<open>The states the engine reaches\<close>


section \<open>Facts about parseInt and number rendering\<close>

lemma js_number_exact: "\<bar>i\<bar> < 2 ^ 53 \<Longrightarrow> js_number i = Num i"
proof -
  assume a: "\<bar>i\<bar> < 2 ^ 53"
  have "nat \<bar>i\<bar> < 2 ^ 53" using a by (simp add: nat_less_iff)
  hence r: "round_double (nat \<bar>i\<bar>) = nat \<bar>i\<bar>" by (simp add: round_double_def)
  have "(2::nat) ^ 53 < 2 ^ 1024" by (rule power_strict_increasing) simp_all
  hence "\<not> (2::nat) ^ 1024 \<le> nat \<bar>i\<bar>" using \<open>nat \<bar>i\<bar> < 2 ^ 53\<close> by linarith
  thus ?thesis using r by (simp add: js_number_def Let_def)
qed

lemma parseInt_digits:
  assumes "x \<noteq> []" and "list_all is_digit x"
  shows "parseInt x = js_number (int (digits_value 10 x))"
proof -
  obtain c r where x: "x = c # r" using assms(1) by (cases x) auto
  have c: "is_digit c" using assms(2) x by simp
  have nows: "\<not> is_ws c" using c by (auto simp: is_digit_def is_ws_def)
  have nosign: "c \<noteq> CHR ''-''" "c \<noteq> CHR ''+''" using c by (auto simp: is_digit_def)
  have dig: "\<And>d. is_digit d \<Longrightarrow> in_radix 10 d"
    by (auto simp: is_digit_def in_radix_def digit_of_def)
  have nohex: "\<not> (case x of a # b # _ \<Rightarrow> a = CHR ''0'' \<and> (b = CHR ''x'' \<or> b = CHR ''X'') | _ \<Rightarrow> False)"
    using assms(2) x by (auto simp: is_digit_def split: list.splits)
  have tw: "takeWhile (in_radix 10) x = x"
    using assms(2) dig by (simp add: takeWhile_eq_all_conv list_all_iff)
  show ?thesis
    using x nows nosign nohex tw assms(1)
    by (simp add: parseInt_def Let_def split: list.splits)
qed

lemma parseInt_decimal:
  assumes "x \<noteq> []" and "list_all is_digit x" and "digits_value 10 x < 2 ^ 53"
  shows "parseInt x = Num (int (digits_value 10 x))"
proof -
  have "\<bar>int (digits_value 10 x)\<bar> < 2 ^ 53"
    using assms(3) by (simp add: of_nat_less_iff [of _ "2 ^ 53", where ?'a = int, simplified])
  thus ?thesis using parseInt_digits [OF assms(1,2)] by (simp add: js_number_exact)
qed

lemma parseInt_3600: "parseInt ''3600'' = Num 3600"
  by (simp add: parseInt_def is_ws_def in_radix_def digit_of_def digits_value_def Let_def
        js_number_exact)

lemma parseInt_1800: "parseInt ''1800'' = Num 1800"
  by (simp add: parseInt_def is_ws_def in_radix_def digit_of_def digits_value_def Let_def
        js_number_exact)

lemma parseInt_0: "parseInt ''0'' = Num 0"
  by (simp add: parseInt_def is_ws_def in_radix_def digit_of_def digits_value_def Let_def
        js_number_exact)

lemma show_int_0: "show_int 0 = ''0''"
  by (simp add: show_int_def show_nat.simps digit_char_def)

lemma bitlen_bounds: "2 ^ k \<le> n \<Longrightarrow> n < 2 ^ Suc k \<Longrightarrow> bitlen n = Suc k"
proof (induction k arbitrary: n)
  case 0
  then have "n = 1" by simp
  then show ?case by (simp add: bitlen.simps)
next
  case (Suc k)
  have a: "2 ^ k \<le> n div 2" using Suc.prems(1) by simp
  have b: "n div 2 < 2 ^ Suc k" using Suc.prems(2) by simp
  have "0 < (2::nat) ^ Suc k" by simp
  hence "n \<noteq> 0" using Suc.prems(1) by linarith
  then show ?case using Suc.IH[OF a b] by (subst bitlen.simps) simp
qed

lemma js_number_not_NaN: "js_number i \<noteq> NaN" "js_number i \<noteq> Undefined"
  by (simp_all add: js_number_def Let_def)

lemma digits_value_snoc:
  "digits_value r (xs @ [c]) = digits_value r xs * r + (case digit_of c of None \<Rightarrow> 0 | Some d \<Rightarrow> d)"
  by (simp add: digits_value_def)

lemma digits_value_bound:
  "list_all is_digit xs \<Longrightarrow> digits_value 10 xs < 10 ^ length xs"
proof (induction xs rule: rev_induct)
  case Nil
  then show ?case by (simp add: digits_value_def)
next
  case (snoc c xs)
  have d: "(case digit_of c of None \<Rightarrow> 0 | Some d \<Rightarrow> d) < 10"
    using snoc.prems by (auto simp: is_digit_def digit_of_def)
  have "digits_value 10 xs < 10 ^ length xs" using snoc by simp
  hence "digits_value 10 xs + 1 \<le> 10 ^ length xs" by simp
  hence "(digits_value 10 xs + 1) * 10 \<le> 10 ^ length xs * 10" by (rule mult_right_mono) simp
  thus ?case using d by (simp add: digits_value_snoc)
qed

lemma tag_digit:
  assumes "c \<in> set ''123456789''"
  shows "is_digit c"
    and "\<exists>d. digit_of c = Some d \<and> 0 < d \<and> d < 10 \<and> digit_char d = c"
  using assms by (auto simp: is_digit_def digit_of_def digit_char_def)

lemma tag_digits:
  "set tag \<subseteq> set ''123456789'' \<Longrightarrow> list_all is_digit tag"
  unfolding list_all_iff using tag_digit(1) by blast

lemma tag_roundtrip:
  "tag \<noteq> [] \<Longrightarrow> set tag \<subseteq> set ''123456789'' \<Longrightarrow>
     0 < digits_value 10 tag \<and> show_nat (digits_value 10 tag) = tag"
proof (induction tag rule: rev_induct)
  case Nil
  then show ?case by simp
next
  case (snoc c xs)
  have "c \<in> set ''123456789''" using snoc.prems(2) by auto
  then obtain d where d: "digit_of c = Some d" "0 < d" "d < 10" "digit_char d = c"
    using tag_digit(2) by blast
  have v: "digits_value 10 (xs @ [c]) = digits_value 10 xs * 10 + d"
    using d(1) by (simp add: digits_value_snoc)
  show ?case
  proof (cases "xs = []")
    case True
    have "digits_value 10 (xs @ [c]) = d" using True d(1) by (simp add: digits_value_def)
    then show ?thesis using True d by (simp add: show_nat.simps)
  next
    case False
    have ih: "0 < digits_value 10 xs" "show_nat (digits_value 10 xs) = xs"
      using snoc.IH[OF False] snoc.prems(2) by auto
    have ge: "\<not> digits_value 10 xs * 10 + d < 10" using ih(1) by linarith
    have dv: "(digits_value 10 xs * 10 + d) div 10 = digits_value 10 xs" using d(3) by simp
    have dc: "digit_char (digits_value 10 xs * 10 + d) = digit_char d"
      using d(3) by (simp add: digit_char_def)
    have "show_nat (digits_value 10 xs * 10 + d) = show_nat (digits_value 10 xs) @ [digit_char d]"
      using ge dv dc by (subst show_nat.simps) simp
    then show ?thesis using v ih d(2,4) by simp
  qed
qed

section \<open>The score of a version tag\<close>

text \<open>
  \<open>generateETag\<close> is \<open>uuid.new()\<close> of the package short-uuid, created with the alphabet
  \<open>123456789\<close>; the package is not among the sources, and what is taken from it is
  that a tag is a non-empty string over that alphabet. \<open>addEventState\<close>,
  \<open>refreshEventState\<close> and \<open>modifyEventState\<close> pass \<open>parseInt(etag)\<close> to \<open>zadd\<close>
  as the score of the event-state key.

  Claim C9, as amended: for such a tag \<open>parseInt\<close> reads the whole tag (printing the
  integer it reads gives the tag back) and answers a number, never \<open>NaN\<close>: the Number
  value of that integer, which is the integer itself when it is below \<open>2^53\<close>, as it is
  for every tag of at most 15 digits.
\<close>

theorem etag_score:
  assumes "tag \<noteq> []" and "set tag \<subseteq> set ''123456789''"
  shows "parseInt tag = js_number (int (digits_value 10 tag))
       \<and> show_nat (digits_value 10 tag) = tag
       \<and> parseInt tag \<noteq> NaN
       \<and> (digits_value 10 tag < 2 ^ 53 \<longrightarrow> parseInt tag = Num (int (digits_value 10 tag)))
       \<and> (length tag \<le> 15 \<longrightarrow> parseInt tag = Num (int (digits_value 10 tag)))"
proof -
  have dg: "list_all is_digit tag" using assms(2) by (rule tag_digits)
  have p: "parseInt tag = js_number (int (digits_value 10 tag))"
    using assms(1) dg by (rule parseInt_digits)
  have s: "show_nat (digits_value 10 tag) = tag" using tag_roundtrip[OF assms] by simp
  have n: "parseInt tag \<noteq> NaN" using p by (simp add: js_number_not_NaN)
  have e: "parseInt tag = Num (int (digits_value 10 tag))" if "digits_value 10 tag < 2 ^ 53"
    using assms(1) dg that by (rule parseInt_decimal)
  have l: "digits_value 10 tag < 2 ^ 53" if "length tag \<le> 15"
  proof -
    have "digits_value 10 tag < 10 ^ length tag" using dg by (rule digits_value_bound)
    also have "(10::nat) ^ length tag \<le> 10 ^ 15" using that by (intro power_increasing) simp_all
    also have "(10::nat) ^ 15 < 2 ^ 53" by simp
    finally show ?thesis .
  qed
  show ?thesis using p s n e l by blast
qed

theorem etag_score_witness:
  "''4718'' \<noteq> [] \<and> set ''4718'' \<subseteq> set ''123456789''
   \<and> parseInt ''4718'' = Num 4718 \<and> show_nat 4718 = ''4718''"
proof -
  have a: "''4718'' \<noteq> []" "set ''4718'' \<subseteq> set ''123456789''" by simp_all
  have v: "digits_value 10 ''4718'' = 4718" by (simp add: digits_value_def digit_of_def)
  show ?thesis using etag_score[OF a] a v by (simp add: js_number_exact)
qed

text \<open>
  Claim C9 as stated, that the score is the tag's exact value, fails from \<open>2^53\<close>
  upward. The tag \<open>9111111111111111\<close> of 16 digits has the odd value 9111111111111111,
  above \<open>2^53\<close>, and its score is 9111111111111112. A UUID of 128 bits written in
  base 9 has about 40 digits; the score of the tag of 41 digits below differs from the
  tag's value in the last 25 digits.
\<close>

theorem etag_score_counterexample:
  "set ''9111111111111111'' \<subseteq> set ''123456789''
   \<and> digits_value 10 ''9111111111111111'' = 9111111111111111
   \<and> parseInt ''9111111111111111'' = Num 9111111111111112
   \<and> set ''73958162549137648291537649182736451928374'' \<subseteq> set ''123456789''
   \<and> length ''73958162549137648291537649182736451928374'' = 41
   \<and> digits_value 10 ''73958162549137648291537649182736451928374''
        = 73958162549137648291537649182736451928374
   \<and> parseInt ''73958162549137648291537649182736451928374''
        = Num 73958162549137649913497620840840452636672"
proof -
  have b1: "bitlen 9111111111111111 = 54"
    using bitlen_bounds[of 53 9111111111111111] by simp
  have r1: "round_double 9111111111111111 = 9111111111111112"
    by (simp add: round_double_def b1 Let_def)
  have b2: "bitlen 73958162549137648291537649182736451928374 = 136"
    using bitlen_bounds[of 135 73958162549137648291537649182736451928374] by simp
  have r2: "round_double 73958162549137648291537649182736451928374
              = 73958162549137649913497620840840452636672"
    by (simp add: round_double_def b2 Let_def)
  have v1: "digits_value 10 ''9111111111111111'' = 9111111111111111"
    by (simp add: digits_value_def digit_of_def)
  have v2: "digits_value 10 ''73958162549137648291537649182736451928374''
              = 73958162549137648291537649182736451928374"
    by (simp add: digits_value_def digit_of_def)
  have p1: "parseInt ''9111111111111111'' = Num 9111111111111112"
    by (simp add: parseInt_def is_ws_def in_radix_def digit_of_def digits_value_def Let_def
          js_number_def r1)
  have p2: "parseInt ''73958162549137648291537649182736451928374''
              = Num 73958162549137649913497620840840452636672"
    by (simp add: parseInt_def is_ws_def in_radix_def digit_of_def digits_value_def Let_def
          js_number_def r2)
  show ?thesis using v1 v2 p1 p2 by simp
qed

section \<open>Store keys\<close>

lemma other_keys_as_named:
  "makeSubscribedResourceKey r = ''watched-aor:'' @ r"
  "makeRegKey a = ''reg:'' @ a"
  "makeEventStateKey a e = ''es:'' @ a @ '':'' @ e"
  "ZSET = ''event_zset''"
  by (simp_all add: makeSubscribedResourceKey_def makeRegKey_def makeEventStateKey_def ZSET_def)

lemma dialog_info_key_never_plain:
  "makeDialogInfoKey aor = ''dlg-info:$'' @ aor \<and> makeDialogInfoKey aor \<noteq> ''dlg-info:'' @ aor"
  by (simp add: makeDialogInfoKey_def)

text \<open>
  Claim C4: every store key matches the naming conventions; in particular the dialog-info
  key is \<open>dlg-info:\<close> immediately followed by the AOR. The other keys are as named
  (\<open>other_keys_as_named\<close>), but \<open>makeDialogInfoKey\<close> puts a dollar sign between the
  prefix and the AOR: for Alice's AOR the key is \<open>dlg-info:$alice@example.com\<close>, which is
  not the prefix followed by the AOR (and so for every AOR: \<open>dialog_info_key_never_plain\<close>).
\<close>

theorem dialog_info_key_has_dollar:
  "makeDialogInfoKey ''alice@example.com'' = ''dlg-info:$alice@example.com''
   \<and> makeDialogInfoKey ''alice@example.com'' \<noteq> ''dlg-info:'' @ ''alice@example.com''"
  by (simp add: makeDialogInfoKey_def)

section \<open>Addresses of record\<close>

text \<open>
  Claim C10: for a URI whose user part is absent, \<open>parseAor\<close> returns the word
  \<open>undefined\<close>, an at sign, and the host, or the configured domain override when the host
  is an IPv4 literal and an override is configured. The function is total, so nothing is
  raised, and the user part of the result is never empty.
\<close>

theorem parseAor_absent_user:
  assumes "user u = None"
  shows "parseAor c u =
           ''undefined@'' @ (case domain c of
                               Some d \<Rightarrow> if ipv4_literal (host u) then d else host u
                             | None \<Rightarrow> host u)"
  using assms by (simp add: parseAor_def split: option.splits)

theorem parseAor_absent_user_witness:
  "parseAor \<lparr>supportedEvents = [''dialog''], expire_default = None, domain = Some ''example.com''\<rparr>
            \<lparr>user = None, host = ''10.0.0.1''\<rparr> = ''undefined@example.com''
   \<and> parseAor \<lparr>supportedEvents = [''dialog''], expire_default = None, domain = Some ''example.com''\<rparr>
            \<lparr>user = None, host = ''sip.example.org''\<rparr> = ''undefined@sip.example.org''
   \<and> parseAor \<lparr>supportedEvents = [''dialog''], expire_default = None, domain = None\<rparr>
            \<lparr>user = None, host = ''10.0.0.1''\<rparr> = ''undefined@10.0.0.1''"
  using parseAor_absent_user [of "\<lparr>user = None, host = ''10.0.0.1''\<rparr>"
          "\<lparr>supportedEvents = [''dialog''], expire_default = None, domain = Some ''example.com''\<rparr>"]
        parseAor_absent_user [of "\<lparr>user = None, host = ''sip.example.org''\<rparr>"
          "\<lparr>supportedEvents = [''dialog''], expire_default = None, domain = Some ''example.com''\<rparr>"]
        parseAor_absent_user [of "\<lparr>user = None, host = ''10.0.0.1''\<rparr>"
          "\<lparr>supportedEvents = [''dialog''], expire_default = None, domain = None\<rparr>"]
  by (simp add: ipv4_literal_def is_digit_def)

section \<open>Validation and the computed expiry\<close>




section \<open>Purging the sorted index\<close>

lemma hgetall_null_iff:
  "\<not> F HGETALL \<Longrightarrow> (hgetall F s k = Inr None) = no_record s k"
  by (auto simp: hgetall_def no_record_def split: option.splits sval.splits)

lemma purge_loop_spec:
  assumes "\<not> F HGETALL" and "\<not> F ZREM"
    and "distinct arr" and "set arr \<subseteq> fst ` set cur"
    and "s ZSET = Some (ZSetV cur, t) \<or> (cur = [] \<and> s ZSET = None)"
    and "\<forall>k. k \<noteq> ZSET \<longrightarrow> s k = s0 k"
    and "\<not> no_record s0 ZSET"
  shows "\<exists>s'. purge_loop F arr s n = (s', n + length (filter (no_record s0) arr))
           \<and> (\<forall>k. k \<noteq> ZSET \<longrightarrow> s' k = s0 k)
           \<and> (s' ZSET = Some (ZSetV (filter (\<lambda>e. \<not> (fst e \<in> set arr \<and> no_record s0 (fst e))) cur), t)
                \<or> (filter (\<lambda>e. \<not> (fst e \<in> set arr \<and> no_record s0 (fst e))) cur = [] \<and> s' ZSET = None))"
  using assms
proof (induction arr arbitrary: s cur n)
  case Nil
  then show ?case by auto
next
  case (Cons a arr)
  have cur: "s ZSET = Some (ZSetV cur, t)" and a_in: "a \<in> fst ` set cur"
    using Cons.prems(4,5) by auto
  have dist: "distinct arr" and a_notin: "a \<notin> set arr" using Cons.prems(3) by auto
  show ?case
  proof (cases "a = ZSET")
    case True
    have rd: "hgetall F s a = Inl WrongType"
      using True cur Cons.prems(1) by (simp add: hgetall_def)
    have nr: "\<not> no_record s0 a" using True Cons.prems(7) by simp
    have sub: "set arr \<subseteq> fst ` set cur" using Cons.prems(4) by auto
    from Cons.IH[OF Cons.prems(1,2) dist sub Cons.prems(5,6,7), of n]
    obtain s' where s': "purge_loop F arr s n = (s', n + length (filter (no_record s0) arr))"
        "\<forall>k. k \<noteq> ZSET \<longrightarrow> s' k = s0 k"
        "s' ZSET = Some (ZSetV (filter (\<lambda>e. \<not> (fst e \<in> set arr \<and> no_record s0 (fst e))) cur), t)
          \<or> (filter (\<lambda>e. \<not> (fst e \<in> set arr \<and> no_record s0 (fst e))) cur = [] \<and> s' ZSET = None)"
      by blast
    have eq: "filter (\<lambda>e. \<not> (fst e \<in> set (a # arr) \<and> no_record s0 (fst e))) cur
            = filter (\<lambda>e. \<not> (fst e \<in> set arr \<and> no_record s0 (fst e))) cur"
      using nr by (intro filter_cong) auto
    show ?thesis using s' rd nr eq by simp
  next
    case False
    have sa: "s a = s0 a" using False Cons.prems(6) by simp
    have nr_s: "no_record s a = no_record s0 a" using sa by (simp add: no_record_def)
    show ?thesis
    proof (cases "no_record s0 a")
      case True
      have rd: "hgetall F s a = Inr None"
        using True nr_s hgetall_null_iff[of F s a] Cons.prems(1) by simp
      let ?cur1 = "filter (\<lambda>e. fst e \<noteq> a) cur"
      let ?s1 = "forget s (zrem F s ZSET a)"
      have s1: "?s1 = (if ?cur1 = [] then s(ZSET := None) else s(ZSET \<mapsto> (ZSetV ?cur1, t)))"
        using cur Cons.prems(2) by (simp add: forget_def zrem_def)
      have p5: "?s1 ZSET = Some (ZSetV ?cur1, t) \<or> (?cur1 = [] \<and> ?s1 ZSET = None)"
        using s1 by simp
      have p6: "\<forall>k. k \<noteq> ZSET \<longrightarrow> ?s1 k = s0 k"
        using s1 Cons.prems(6) by simp
      have sub: "set arr \<subseteq> fst ` set ?cur1"
        using Cons.prems(4) a_notin by force
      from Cons.IH[OF Cons.prems(1,2) dist sub p5 p6 Cons.prems(7), of "n + 1"]
      obtain s' where s': "purge_loop F arr ?s1 (n + 1) = (s', n + 1 + length (filter (no_record s0) arr))"
        "\<forall>k. k \<noteq> ZSET \<longrightarrow> s' k = s0 k"
        "s' ZSET = Some (ZSetV (filter (\<lambda>e. \<not> (fst e \<in> set arr \<and> no_record s0 (fst e))) ?cur1), t)
          \<or> (filter (\<lambda>e. \<not> (fst e \<in> set arr \<and> no_record s0 (fst e))) ?cur1 = [] \<and> s' ZSET = None)"
        by blast
      have eq: "filter (\<lambda>e. \<not> (fst e \<in> set arr \<and> no_record s0 (fst e))) ?cur1
              = filter (\<lambda>e. \<not> (fst e \<in> set (a # arr) \<and> no_record s0 (fst e))) cur"
        using True by (auto intro: filter_cong)
      show ?thesis using s' rd True eq by simp
    next
      case nr: False
      have rd: "hgetall F s a \<noteq> Inr None"
        using nr nr_s hgetall_null_iff[of F s a] Cons.prems(1) by simp
      have sub: "set arr \<subseteq> fst ` set cur" using Cons.prems(4) by auto
      from Cons.IH[OF Cons.prems(1,2) dist sub Cons.prems(5,6,7), of n]
      obtain s' where s': "purge_loop F arr s n = (s', n + length (filter (no_record s0) arr))"
        "\<forall>k. k \<noteq> ZSET \<longrightarrow> s' k = s0 k"
        "s' ZSET = Some (ZSetV (filter (\<lambda>e. \<not> (fst e \<in> set arr \<and> no_record s0 (fst e))) cur), t)
          \<or> (filter (\<lambda>e. \<not> (fst e \<in> set arr \<and> no_record s0 (fst e))) cur = [] \<and> s' ZSET = None)"
        by blast
      have eq: "filter (\<lambda>e. \<not> (fst e \<in> set (a # arr) \<and> no_record s0 (fst e))) cur
            = filter (\<lambda>e. \<not> (fst e \<in> set arr \<and> no_record s0 (fst e))) cur"
        using nr by (intro filter_cong) auto
      have step: "purge_loop F (a # arr) s n = purge_loop F arr s n"
        using rd by (cases "hgetall F s a") (auto split: option.splits)
      show ?thesis using s' nr eq step by simp
    qed
  qed
qed

text \<open>
  Claim C7: when the store answers every command, \<open>purgeExpired\<close> removes from the
  sorted index exactly the entries whose key has no record, keeps every other entry (in
  order, with its score), changes no other key, and returns the number of entries it
  removed. The entries of an index are distinct by member, as in any sorted set.
\<close>

theorem purgeExpired_exact:
  assumes "\<not> F ZRANGEBYSCORE" and "\<not> F HGETALL" and "\<not> F ZREM"
    and "s ZSET = Some (ZSetV zs, t)" and "distinct (map fst zs)"
  shows "\<exists>s'. purgeExpired F s = Inr (s', length (filter (\<lambda>e. no_record s (fst e)) zs))
           \<and> zset_entries s' = filter (\<lambda>e. \<not> no_record s (fst e)) zs
           \<and> (\<forall>k. k \<noteq> ZSET \<longrightarrow> s' k = s k)"
proof -
  have arr: "zrangebyscore_all F s ZSET = Inr (map fst zs)"
    using assms(1,4) by (simp add: zrangebyscore_all_def)
  have nr: "\<not> no_record s ZSET" using assms(4) by (simp add: no_record_def)
  from purge_loop_spec[OF assms(2,3,5), of zs s t s 0] assms(4) nr
  obtain s' where s': "purge_loop F (map fst zs) s 0 = (s', 0 + length (filter (no_record s) (map fst zs)))"
      "\<forall>k. k \<noteq> ZSET \<longrightarrow> s' k = s k"
      "s' ZSET = Some (ZSetV (filter (\<lambda>e. \<not> (fst e \<in> set (map fst zs) \<and> no_record s (fst e))) zs), t)
        \<or> (filter (\<lambda>e. \<not> (fst e \<in> set (map fst zs) \<and> no_record s (fst e))) zs = [] \<and> s' ZSET = None)"
    by auto
  have eq: "filter (\<lambda>e. \<not> (fst e \<in> set (map fst zs) \<and> no_record s (fst e))) zs
          = filter (\<lambda>e. \<not> no_record s (fst e)) zs"
    by (intro filter_cong) auto
  have cnt: "length (filter (no_record s) (map fst zs)) = length (filter (\<lambda>e. no_record s (fst e)) zs)"
    by (simp add: filter_map comp_def)
  have z: "zset_entries s' = filter (\<lambda>e. \<not> no_record s (fst e)) zs"
    using s'(3) eq by (auto simp: zset_entries_def)
  show ?thesis using arr s'(1,2) z cnt by (simp add: purgeExpired_def)
qed

theorem purgeExpired_exact_witness:
  "\<exists>s'. purgeExpired (\<lambda>_. False) ex_index = Inr (s', 1)
        \<and> zset_entries s' = [(''es:bob@example.com:presence'', 11)]
        \<and> s' ''es:bob@example.com:presence'' = ex_index ''es:bob@example.com:presence''"
  using purgeExpired_exact [of "\<lambda>_. False" ex_index
          "[(''es:bob@example.com:presence'', 11), (''es:carol@example.com:presence'', 12)]" None]
  by (auto simp: ex_index_def ZSET_def no_record_def)

section \<open>The channel listener's fan-out\<close>

lemma hgetall_cases:
  "\<not> F HGETALL \<Longrightarrow>
     hgetall F s k = (if no_record s k then Inr None
                      else case live_record s k of Some h \<Rightarrow> Inr (Some h) | None \<Rightarrow> Inl WrongType)"
  by (auto simp: hgetall_def no_record_def live_record_def split: option.splits sval.splits)

lemma no_record_not_live: "no_record s k \<Longrightarrow> live_record s k = None"
  by (auto simp: no_record_def live_record_def split: option.splits sval.splits)

lemma notify_watchers_spec:
  assumes "\<not> faulty E HGETALL" and "\<not> faulty E SREM"
    and "distinct subs" and "set subs \<subseteq> set cur"
    and "kv w key = Some (SetV cur, t) \<or> (cur = [] \<and> kv w key = None)"
    and "\<forall>k. k \<noteq> key \<longrightarrow> kv w k = s0 k"
    and "\<not> no_record s0 key" and "live_record s0 key = None"
  shows "sent (notify_watchers E key info subs w) = sent w @ fanout E s0 info subs
       \<and> (\<forall>k. k \<noteq> key \<longrightarrow> kv (notify_watchers E key info subs w) k = s0 k)
       \<and> set_members (kv (notify_watchers E key info subs w)) key
            = filter (\<lambda>m. \<not> (m \<in> set subs \<and> no_record s0 m)) cur
       \<and> dialogs (notify_watchers E key info subs w) = dialogs w
       \<and> armed (notify_watchers E key info subs w) = armed w
       \<and> responses (notify_watchers E key info subs w) = responses w"
  using assms
proof (induction subs arbitrary: w cur)
  case Nil
  then show ?case by (auto simp: fanout_def set_members_def)
next
  case (Cons a subs)
  have cur: "kv w key = Some (SetV cur, t)" and a_in: "a \<in> set cur"
    using Cons.prems(4,5) by auto
  have dist: "distinct subs" and a_notin: "a \<notin> set subs" using Cons.prems(3) by auto
  have sub: "set subs \<subseteq> set cur" using Cons.prems(4) by auto
  have rec_a: "no_record (kv w) a = no_record s0 a \<and> live_record (kv w) a = live_record s0 a"
  proof (cases "a = key")
    case True
    then show ?thesis using cur Cons.prems(7,8) by (simp add: no_record_def live_record_def)
  next
    case False
    then show ?thesis using Cons.prems(6) by (simp add: no_record_def live_record_def)
  qed
  have rd: "hgetall (faulty E) (kv w) a =
              (if no_record s0 a then Inr None
               else case live_record s0 a of Some h \<Rightarrow> Inr (Some h) | None \<Rightarrow> Inl WrongType)"
    using hgetall_cases[of "faulty E" "kv w" a] Cons.prems(1) rec_a by simp
  show ?case
  proof (cases "no_record s0 a")
    case True
    let ?cur1 = "removeAll a cur"
    let ?w1 = "w\<lparr>kv := forget (kv w) (srem (faulty E) (kv w) key a)\<rparr>"
    have kv1: "kv ?w1 = (if ?cur1 = [] then (kv w)(key := None) else (kv w)(key \<mapsto> (SetV ?cur1, t)))"
      using cur Cons.prems(2) by (simp add: forget_def srem_def)
    have p5: "kv ?w1 key = Some (SetV ?cur1, t) \<or> (?cur1 = [] \<and> kv ?w1 key = None)"
      using kv1 by simp
    have p6: "\<forall>k. k \<noteq> key \<longrightarrow> kv ?w1 k = s0 k"
      using kv1 Cons.prems(6) by simp
    have sub1: "set subs \<subseteq> set ?cur1" using sub a_notin by auto
    have step: "notify_watchers E key info (a # subs) w = notify_watchers E key info subs ?w1"
      using rd True by simp
    have nl: "live_record s0 a = None" using True by (rule no_record_not_live)
    have eq: "filter (\<lambda>m. \<not> (m \<in> set subs \<and> no_record s0 m)) ?cur1
            = filter (\<lambda>m. \<not> (m \<in> set (a # subs) \<and> no_record s0 m)) cur"
      using True by (induction cur) auto
    have fo: "fanout E s0 info (a # subs) = fanout E s0 info subs"
      using nl by (simp add: fanout_def)
    from Cons.IH[OF Cons.prems(1,2) dist sub1 p5 p6 Cons.prems(7,8)]
    show ?thesis unfolding step eq[symmetric] fo by simp
  next
    case nr: False
    have eq: "filter (\<lambda>m. \<not> (m \<in> set (a # subs) \<and> no_record s0 m)) cur
            = filter (\<lambda>m. \<not> (m \<in> set subs \<and> no_record s0 m)) cur"
      using nr by (intro filter_cong) auto
    show ?thesis
    proof (cases "live_record s0 a")
      case None
      have step: "notify_watchers E key info (a # subs) w = notify_watchers E key info subs w"
        using rd nr None by simp
      have fo: "fanout E s0 info (a # subs) = fanout E s0 info subs"
        using None by (simp add: fanout_def)
      from Cons.IH[OF Cons.prems(1,2) dist sub Cons.prems(5,6,7,8)]
      show ?thesis unfolding step eq fo by simp
    next
      case (Some sd)
      let ?n = "watcher_notify sd info"
      let ?w1 = "if request_fails E ?n then w else w\<lparr>sent := sent w @ [?n]\<rparr>"
      have step: "notify_watchers E key info (a # subs) w = notify_watchers E key info subs ?w1"
        using rd nr Some by simp
      have fo: "fanout E s0 info (a # subs) = (if request_fails E ?n then [] else [?n]) @ fanout E s0 info subs"
        using Some by (simp add: fanout_def)
      have p5: "kv ?w1 key = Some (SetV cur, t) \<or> (cur = [] \<and> kv ?w1 key = None)"
        using Cons.prems(5) by simp
      have p6: "\<forall>k. k \<noteq> key \<longrightarrow> kv ?w1 k = s0 k" using Cons.prems(6) by simp
      from Cons.IH[OF Cons.prems(1,2) dist sub p5 p6 Cons.prems(7,8)]
      show ?thesis unfolding step eq fo by simp
    qed
  qed
qed

lemma state_in_dialog_element:
  assumes "truthy_str (f ''id'')" and "f ''state'' = Some st"
  shows "sublist (''<state>'' @ st @ ''</state>'') (dialog_element f)"
proof -
  have "suffix (''\"><state>'' @ st @ ''</state></dialog>'') (dialog_element f)"
    unfolding dialog_element_def using assms
    by (auto simp del: append.simps append_assoc intro!: suffix_appendI)
  then obtain a where "dialog_element f = a @ (''\"><state>'' @ st @ ''</state></dialog>'')"
    by (auto simp: suffix_def)
  then have "dialog_element f = (a @ ''\">'') @ (''<state>'' @ st @ ''</state>'') @ ''</dialog>''"
    by simp
  then show ?thesis by (metis sublist_appendI)
qed

lemma state_in_content:
  assumes "map_of info ''id'' = Some i" and "i \<noteq> []" and "map_of info ''state'' = Some st"
  shows "sublist (''<state>'' @ st @ ''</state>'') (makeXmlContent sd (Some info))"
proof -
  have "sublist (''<state>'' @ st @ ''</state>'') (dialog_element (map_of info))"
    using assms by (intro state_in_dialog_element) auto
  then obtain p q where "dialog_element (map_of info) = p @ (''<state>'' @ st @ ''</state>'') @ q"
    by (auto simp: sublist_def)
  then have "\<exists>p' q'. makeXmlContent sd (Some info) = p' @ (''<state>'' @ st @ ''</state>'') @ q'"
    unfolding makeXmlContent_def Let_def
    by (metis append.assoc option.simps(5))
  then show ?thesis by (auto simp: sublist_def)
qed

lemma message_info_fields:
  "map_of (message_info aor i cid lt rt dir st) ''id'' = Some i"
  "map_of (message_info aor i cid lt rt dir st) ''state'' = Some st"
  by (simp_all add: message_info_def defined_fields_def)

lemma onMessage_terminal_unfold:
  assumes "split_on CHR '' '' msg = [aor, i, cid, lt, rt, dir, st]"
    and "st \<in> set terminal_states"
    and "\<not> faulty E DEL" and "\<not> faulty E SMEMBERS"
    and "kv w (makeSubscribedResourceKey aor) = Some (SetV ms, t)"
  shows "onMessage E msg w =
           notify_watchers E (makeSubscribedResourceKey aor) (message_info aor i cid lt rt dir st) ms
             (w\<lparr>kv := (kv w)(makeDialogInfoKey aor := None)\<rparr>)"
proof -
  have ne: "makeSubscribedResourceKey aor \<noteq> makeDialogInfoKey aor"
    by (simp add: makeSubscribedResourceKey_def makeDialogInfoKey_def)
  have sm: "smembers (faulty E) ((kv w)(makeDialogInfoKey aor := None)) (makeSubscribedResourceKey aor) = Inr ms"
    using assms(4,5) ne by (simp add: smembers_def)
  show ?thesis
    unfolding onMessage_def Let_def
    using assms(1,2,3) sm
    by (simp add: nth_field_def forget_def del_def message_info_def)
qed

text \<open>
  Claim C6: a channel message \<open>aor id callId localTag remoteTag direction state\<close> with a
  terminal state, for a resource whose watched-resource set holds the members \<open>ms\<close>,
  when the store answers every command. The handler deletes the resource's dialog-info
  record. In the order of the set it sends one NOTIFY, with \<open>Subscription-State: active\<close>,
  to every member whose record is live, except a member whose NOTIFY the transport rejects:
  a rejection takes away that one request and no other (\<open>fanout\<close>). It removes from the set
  exactly the members that have no record, and sends them nothing. When the message has a
  dialog id, the body of every NOTIFY holds the new state in its \<open>state\<close> element. The
  response to a NOTIFY is only logged, so it changes nothing here.
\<close>

theorem onMessage_terminal_fanout:
  assumes "split_on CHR '' '' msg = [aor, i, cid, lt, rt, dir, st]"
    and "st \<in> set terminal_states"
    and "\<not> faulty E DEL" and "\<not> faulty E SMEMBERS" and "\<not> faulty E HGETALL" and "\<not> faulty E SREM"
    and "kv w (makeSubscribedResourceKey aor) = Some (SetV ms, t)"
    and "distinct ms"
  shows "kv (onMessage E msg w) (makeDialogInfoKey aor) = None
       \<and> sent (onMessage E msg w) =
           sent w @ fanout E ((kv w)(makeDialogInfoKey aor := None)) (message_info aor i cid lt rt dir st) ms
       \<and> set_members (kv (onMessage E msg w)) (makeSubscribedResourceKey aor) =
           filter (\<lambda>m. \<not> no_record ((kv w)(makeDialogInfoKey aor := None)) m) ms
       \<and> (i \<noteq> [] \<longrightarrow>
            (\<forall>sd. n_state (watcher_notify sd (message_info aor i cid lt rt dir st)) = ''active''
                \<and> (\<exists>b. n_body (watcher_notify sd (message_info aor i cid lt rt dir st)) = Some b
                       \<and> sublist (''<state>'' @ st @ ''</state>'') b)))"
proof -
  let ?key = "makeSubscribedResourceKey aor"
  let ?dk = "makeDialogInfoKey aor"
  let ?s1 = "(kv w)(?dk := None)"
  let ?w1 = "w\<lparr>kv := ?s1\<rparr>"
  let ?info = "message_info aor i cid lt rt dir st"
  have ne: "?key \<noteq> ?dk"
    by (simp add: makeSubscribedResourceKey_def makeDialogInfoKey_def)
  have unf: "onMessage E msg w = notify_watchers E ?key ?info ms ?w1"
    using onMessage_terminal_unfold[OF assms(1,2,3,4,7)] .
  have p5: "kv ?w1 ?key = Some (SetV ms, t) \<or> (ms = [] \<and> kv ?w1 ?key = None)"
    using assms(7) ne by simp
  have p6: "\<forall>k. k \<noteq> ?key \<longrightarrow> kv ?w1 k = ?s1 k" by simp
  have p7: "\<not> no_record ?s1 ?key" using assms(7) ne by (simp add: no_record_def)
  have p8: "live_record ?s1 ?key = None" using assms(7) ne by (simp add: live_record_def)
  have loop: "sent (notify_watchers E ?key ?info ms ?w1) = sent ?w1 @ fanout E ?s1 ?info ms
       \<and> (\<forall>k. k \<noteq> ?key \<longrightarrow> kv (notify_watchers E ?key ?info ms ?w1) k = ?s1 k)
       \<and> set_members (kv (notify_watchers E ?key ?info ms ?w1)) ?key
            = filter (\<lambda>m. \<not> (m \<in> set ms \<and> no_record ?s1 m)) ms
       \<and> dialogs (notify_watchers E ?key ?info ms ?w1) = dialogs ?w1
       \<and> armed (notify_watchers E ?key ?info ms ?w1) = armed ?w1
       \<and> responses (notify_watchers E ?key ?info ms ?w1) = responses ?w1"
    by (rule notify_watchers_spec[OF assms(5,6,8) subset_refl p5 p6 p7 p8])
  have eq: "filter (\<lambda>m. \<not> (m \<in> set ms \<and> no_record ?s1 m)) ms = filter (\<lambda>m. \<not> no_record ?s1 m) ms"
    by (intro filter_cong) auto
  have c1: "kv (onMessage E msg w) ?dk = None"
    using loop ne unf by simp
  have c2: "sent (onMessage E msg w) = sent w @ fanout E ?s1 ?info ms"
    using loop unf by simp
  have c3: "set_members (kv (onMessage E msg w)) ?key = filter (\<lambda>m. \<not> no_record ?s1 m) ms"
    using loop unf eq by simp
  have c4: "i \<noteq> [] \<longrightarrow>
            (\<forall>sd. n_state (watcher_notify sd ?info) = ''active''
                \<and> (\<exists>b. n_body (watcher_notify sd ?info) = Some b
                       \<and> sublist (''<state>'' @ st @ ''</state>'') b))"
    using state_in_content[OF message_info_fields(1) _ message_info_fields(2)]
    by (simp add: watcher_notify_def)
  show ?thesis using c1 c2 c3 c4 by blast
qed

theorem onMessage_terminal_fanout_witness:
  "let w = onMessage ex_lossy ''bob@example.com 77 c9 undef rt9 initiator terminated'' ex_watched
   in kv w ''dlg-info:$bob@example.com'' = None
    \<and> map via (sent w) = [Some ''c4;from-tag=t4'']
    \<and> map n_state (sent w) = [''active'']
    \<and> set_members (kv w) ''watched-aor:bob@example.com'' =
         [''dlg-sub:alice@example.com-bob@example.com'', ''dlg-sub:dave@example.com-bob@example.com'']"
  using onMessage_terminal_fanout [where msg = "''bob@example.com 77 c9 undef rt9 initiator terminated''"
          and aor = "''bob@example.com''" and i = "''77''" and cid = "''c9''" and lt = "''undef''"
          and rt = "''rt9''" and dir = "''initiator''" and st = "''terminated''"
          and E = ex_lossy and w = ex_watched and t = None
          and ms = "[''dlg-sub:alice@example.com-bob@example.com'',
                     ''dlg-sub:carol@example.com-bob@example.com'',
                     ''dlg-sub:dave@example.com-bob@example.com'']"]
  by (simp add: ex_lossy_def ex_env_def ex_watched_def ex_world_def terminal_states_def
        makeSubscribedResourceKey_def makeDialogInfoKey_def fanout_def live_record_def
        no_record_def watcher_notify_def Let_def)

section \<open>The timer map\<close>

lemma start_dialogs:
  "dlg \<noteq> AUndef \<Longrightarrow>
   dialogs (snd (startSubscriptionTimer lg db dlg sub ex w)) =
     (dialogs w)(arg_id dlg \<mapsto> (case dialogs w (arg_id dlg) of None \<Rightarrow> [] | Some xs \<Rightarrow> xs)
                                  @ [\<lparr>subscription = sub, timer = next_timer w\<rparr>])"
  by (cases dlg) (simp_all add: startSubscriptionTimer_def Let_def)

lemma start_dialogs_undef:
  "dialogs (snd (startSubscriptionTimer lg db AUndef sub ex w)) = dialogs w"
  by (simp add: startSubscriptionTimer_def Let_def)

lemma start_keeps_ok:
  assumes "timer_map_ok (dialogs w)"
    and "\<forall>subs. dialogs w (arg_id dlg) = Some subs \<longrightarrow> arg_eventType sub \<notin> set (binding_types subs)"
  shows "timer_map_ok (dialogs (snd (startSubscriptionTimer lg db dlg sub ex w)))"
proof (cases "dlg = AUndef")
  case True
  then show ?thesis using assms(1) by (simp add: start_dialogs_undef)
next
  case False
  show ?thesis
    unfolding start_dialogs[OF False] timer_map_ok_def
    using assms
    by (auto simp: timer_map_ok_def binding_types_def split: option.splits if_splits)
qed

lemma arg_case_defined:
  "x \<noteq> AUndef \<Longrightarrow> case_arg a (\<lambda>_. b) b b (\<lambda>_. b) (\<lambda>_. b) (\<lambda>_. b) x = b"
  by (cases x) simp_all

lemma clear_defined:
  assumes "dlg \<noteq> AUndef"
  shows "clearSubscriptionTimer lg db dlg sub ac w =
     (case dialogs w (arg_id dlg) of
             None \<Rightarrow> (Some AssertionError, w)
           | Some subs \<Rightarrow>
               if subs = [] then (Some AssertionError, w)
               else if sub = AUndef \<or> list_ex (\<lambda>s. subscription s = AUndef) subs
               then (Some TypeError, w)
               else
                 (let arr = filter (same_type sub) subs;
                      rest = filter (\<lambda>s. \<not> same_type sub s) subs;
                      w1 = w\<lparr>dialogs := (dialogs w)(arg_id dlg \<mapsto> rest)\<rparr>
                  in (case arr of
                        [a] \<Rightarrow>
                          (let w2 = (if arg_truthy ac then clearTimeout (timer a) w1 else w1)
                           in (None, if rest = []
                                     then w2\<lparr>dialogs := (dialogs w2)(arg_id dlg := None)\<rparr>
                                     else w2))
                      | _ \<Rightarrow> (Some AssertionError, w1))))"
  unfolding clearSubscriptionTimer_def using assms by (rule arg_case_defined)

lemma clear_success:
  assumes "fst (clearSubscriptionTimer lg db dlg sub ac w) = None"
  shows "\<exists>subs a. dialogs w (arg_id dlg) = Some subs \<and> filter (same_type sub) subs = [a]
           \<and> dialogs (snd (clearSubscriptionTimer lg db dlg sub ac w)) =
               (if filter (\<lambda>s. \<not> same_type sub s) subs = [] then (dialogs w)(arg_id dlg := None)
                else (dialogs w)(arg_id dlg \<mapsto> filter (\<lambda>s. \<not> same_type sub s) subs))"
proof (cases "dlg = AUndef")
  case True
  then show ?thesis using assms by (simp add: clearSubscriptionTimer_def)
next
  case False
  show ?thesis
    using assms
    by (auto simp: clear_defined[OF False] Let_def clearTimeout_def
          split: option.splits if_splits list.splits)
qed

lemma distinct_types_filter:
  "distinct (binding_types subs) \<Longrightarrow> distinct (binding_types (filter P subs))"
  by (simp add: binding_types_def distinct_map_filter)

lemma clear_keeps_ok:
  assumes "timer_map_ok (dialogs w)"
    and "fst (clearSubscriptionTimer lg db dlg sub ac w) = None"
  shows "timer_map_ok (dialogs (snd (clearSubscriptionTimer lg db dlg sub ac w)))"
proof -
  from clear_success[OF assms(2)] obtain subs a where
    s: "dialogs w (arg_id dlg) = Some subs"
    and d: "dialogs (snd (clearSubscriptionTimer lg db dlg sub ac w)) =
               (if filter (\<lambda>s. \<not> same_type sub s) subs = [] then (dialogs w)(arg_id dlg := None)
                else (dialogs w)(arg_id dlg \<mapsto> filter (\<lambda>s. \<not> same_type sub s) subs))"
    by blast
  have "distinct (binding_types subs)" using assms(1) s by (auto simp: timer_map_ok_def)
  then have "distinct (binding_types (filter (\<lambda>s. \<not> same_type sub s) subs))"
    by (rule distinct_types_filter)
  then show ?thesis
    unfolding d using assms(1)
    by (auto simp: timer_map_ok_def split: if_splits)
qed

lemma clear_last_deletes:
  assumes "fst (clearSubscriptionTimer lg db dlg sub ac w) = None"
    and "dialogs w (arg_id dlg) = Some [b]"
  shows "dialogs (snd (clearSubscriptionTimer lg db dlg sub ac w)) (arg_id dlg) = None"
  using clear_success[OF assms(1)] assms(2)
  by (auto split: if_splits)

section \<open>The timer map on the states the engine reaches\<close>


lemma notify_dialogs: "dialogs (snd (notify E lg db sub dlg st w)) = dialogs w"
  by (auto simp: notify_def Let_def split: arg.splits sum.splits option.splits)

lemma unhandled_error_dialogs: "dialogs (unhandled_error r) = dialogs (snd r)"
  by (auto simp: unhandled_error_def split: option.splits)







lemma clear_undefined_fails:
  "\<exists>e. clearSubscriptionTimer lg db dlg AUndef ac w = (Some e, w)"
proof (cases "dlg = AUndef")
  case True
  then show ?thesis by (simp add: clearSubscriptionTimer_def)
next
  case False
  show ?thesis
    unfolding clear_defined[OF False]
    by (simp split: option.splits)
qed

lemma expire_is_error:
  "\<exists>e. expireSubscription E lg db dlg sub w = w\<lparr>unhandled := unhandled w @ [e]\<rparr>"
proof -
  obtain e where c: "clearSubscriptionTimer lg dlg sub AUndef AUndef w = (Some e, w)"
    using clear_undefined_fails[of lg dlg sub AUndef w] by blast
  have "expireSubscription E lg db dlg sub w = w\<lparr>unhandled := unhandled w @ [e]\<rparr>
        \<or> expireSubscription E lg db dlg sub w = w\<lparr>unhandled := unhandled w @ [TypeError]\<rparr>"
    using c by (cases lg; cases dlg) (simp_all add: expireSubscription_def unhandled_error_def)
  then show ?thesis by blast
qed





section \<open>What the handlers leave untouched\<close>

lemma notify_frame:
  "armed (snd (notify E lg db sub dlg st w)) = armed w"
  "next_timer (snd (notify E lg db sub dlg st w)) = next_timer w"
  "responses (snd (notify E lg db sub dlg st w)) = responses w"
  "kv (snd (notify E lg db sub dlg st w)) = kv w"
  by (auto simp: notify_def Let_def split: arg.splits sum.splits option.splits)

lemma unhandled_error_frame:
  "armed (unhandled_error r) = armed (snd r)"
  "sent (unhandled_error r) = sent (snd r)"
  "responses (unhandled_error r) = responses (snd r)"
  by (auto simp: unhandled_error_def split: option.splits)

lemma clear_without_cancel:
  "armed (snd (clearSubscriptionTimer lg db dlg sub AUndef w)) = armed w"
  by (cases dlg)
     (auto simp: clearSubscriptionTimer_def Let_def split: option.splits list.splits)

lemma clear_dialogs_shape:
  "\<exists>v. dialogs (snd (clearSubscriptionTimer lg db dlg sub ac w)) = (dialogs w)(arg_id dlg := v)"
proof (cases "dlg = AUndef")
  case True
  have "snd (clearSubscriptionTimer lg db dlg sub ac w) = w"
    using True by (simp add: clearSubscriptionTimer_def)
  moreover have "dialogs w = (dialogs w)(arg_id dlg := dialogs w (arg_id dlg))" by simp
  ultimately show ?thesis by metis
next
  case False
  note nd = False
  show ?thesis
  proof (cases "dialogs w (arg_id dlg)")
    case None
    have "snd (clearSubscriptionTimer lg db dlg sub ac w) = w"
      using None by (simp add: clear_defined[OF nd])
    moreover have "dialogs w = (dialogs w)(arg_id dlg := dialogs w (arg_id dlg))" by simp
    ultimately show ?thesis by metis
  next
    case (Some subs)
    show ?thesis
    proof (cases "subs = [] \<or> sub = AUndef \<or> list_ex (\<lambda>s. subscription s = AUndef) subs")
      case True
      have "snd (clearSubscriptionTimer lg db dlg sub ac w) = w"
        using Some True by (auto simp: clear_defined[OF nd])
      moreover have "dialogs w = (dialogs w)(arg_id dlg := dialogs w (arg_id dlg))" by simp
      ultimately show ?thesis by metis
    next
      case False
      let ?arr = "filter (same_type sub) subs"
      let ?rest = "filter (\<lambda>s. \<not> same_type sub s) subs"
      let ?w1 = "w\<lparr>dialogs := (dialogs w)(arg_id dlg \<mapsto> ?rest)\<rparr>"
      have unf: "clearSubscriptionTimer lg db dlg sub ac w =
                  (case ?arr of
                     [a] \<Rightarrow> (let w2 = (if arg_truthy ac then clearTimeout (timer a) ?w1 else ?w1)
                             in (None, if ?rest = [] then w2\<lparr>dialogs := (dialogs w2)(arg_id dlg := None)\<rparr> else w2))
                   | _ \<Rightarrow> (Some AssertionError, ?w1))"
        using Some False by (simp add: clear_defined[OF nd] Let_def)
      show ?thesis
      proof (cases ?arr)
        case Nil
        then show ?thesis unfolding unf by (simp, blast)
      next
        case (Cons a as)
        show ?thesis
        proof (cases as)
          case Nil
          then show ?thesis unfolding unf using Cons
            by (simp add: clearTimeout_def Let_def, blast)
        next
          case (Cons b bs)
          then show ?thesis unfolding unf using \<open>?arr = a # as\<close> by (simp, blast)
        qed
      qed
    qed
  qed
qed

lemma clear_other_key:
  "k \<noteq> arg_id dlg \<Longrightarrow> dialogs (snd (clearSubscriptionTimer lg db dlg sub ac w)) k = dialogs w k"
  using clear_dialogs_shape[of lg db dlg sub ac w] by auto

lemma clear_undefined_subscription:
  "dialogs (snd (clearSubscriptionTimer lg db dlg AUndef ac w)) = dialogs w"
  by (cases dlg)
     (auto simp: clearSubscriptionTimer_def Let_def split: option.splits list.splits)

section \<open>The worked deployment, step by step\<close>

lemmas engine_defs =
  subscribe_handler_def validate_def initial_def refresh_def remove_def expireSubscription_def fire_def
  notify_def unhandled_error_def respond_def as_arg_def header_expiry_def refresh_expiry_def
  startSubscriptionTimer_def clearSubscriptionTimer_def clearTimeout_def same_type_def
  addSubscription_def removeSubscription_def dialogAddSubscription_def dialogRemoveSubscription_def
  getEventState_def dialogGetEventState_def has_package_def hash_of_sd_def hash_of_event_def
  hgetall_def del_def sadd_def srem_def smembers_def get_str_def exec_def forget_def
  makeSubscriptionName_def makeSubscribedResourceKey_def makeDialogInfoKey_def makeEventStateKey_def
  makeSubStateKey_def makeSubStateKeyId_def makeSubStateKeyDialog_def
  parseAor_def ipv4_literal_def parseEventHeader_def getDefaultSubscriptionExpiry_def
  ex_cfg_def ex_dialog_def ex_env_def ex_world_def ex_request_def ex_sub_def
  js_number_exact

lemma subscribed_world_fields:
  "kv subscribed_world =
     [''watched-aor:bob@example.com'' \<mapsto> (SetV [''dlg-sub:alice@example.com-bob@example.com''], None),
      ''dlg-sub:alice@example.com-bob@example.com'' \<mapsto>
        (Hash [(''aor'', ''bob@example.com''), (''dialogId'', ''c1;from-tag=t1''), (''count'', ''0''),
               (''etag'', ''4718''), (''id'', ''u1''), (''notifyType'', ''sip'')], Some 3600)]"
  "dialogs subscribed_world = [Some ''d1'' \<mapsto> [\<lparr>subscription = ex_sub, timer = 0\<rparr>]]"
  "armed subscribed_world =
     [(0, \<lparr>t_logger = ALogger, t_db = ADb, t_dlg = ADlg ex_dialog, t_sub = ex_sub, t_delay = Num 3600000\<rparr>)]"
  "next_timer subscribed_world = 1"
  "listeners subscribed_world = [(''d1'', ex_sub)]"
  "responses subscribed_world = [(202, Some (Num 3600))]"
  "unhandled subscribed_world = []"
  "map n_state (sent subscribed_world) = [''active'']"
  unfolding subscribed_world_def
  by (simp_all add: engine_defs parseInt_3600 show_int_0 trim_def is_ws_def is_digit_def Let_def)

section \<open>The invariant of the timer map\<close>



section \<open>Refresh, termination and failed writes\<close>

lemma initial_without_dialog:
  "uas E = None \<Longrightarrow> initial E lg req w = w\<lparr>responses := responses w @ [(480, None)]\<rparr>"
  by (simp add: initial_def respond_def)

text \<open>
  A refresh request without \<open>req.event\<close> is never accepted: whatever the state, the only
  answer is 480, no NOTIFY is sent and no timer is armed.
\<close>

lemma refresh_without_event:
  assumes "req_event req = None"
  shows "responses (refresh E lg db req dlg sub w) = responses w @ [(480, None)]
       \<and> sent (refresh E lg db req dlg sub w) = sent w
       \<and> next_timer (refresh E lg db req dlg sub w) = next_timer w"
proof -
  obtain e1 w1 where c: "clearSubscriptionTimer lg db dlg sub (ABool True) w = (e1, w1)"
    by (cases "clearSubscriptionTimer lg db dlg sub (ABool True) w")
  have f1: "responses w1 = responses w \<and> sent w1 = sent w \<and> next_timer w1 = next_timer w"
    using c by (cases dlg)
      (auto simp: clearSubscriptionTimer_def clearTimeout_def Let_def split: option.splits list.splits if_splits)
  obtain e2 s2 where r: "removeSubscription E sub (kv w1) = (e2, s2)"
    by (cases "removeSubscription E sub (kv w1)")
  have a: "addSubscription E dlg AUndef (req_expiry req) s2 = (Inl TypeError, s2)"
    by (simp add: addSubscription_def)
  show ?thesis
    using c r a f1 assms
    by (cases e1; cases e2) (simp_all add: refresh_def Let_def respond_def as_arg_def)
qed

text \<open>
  Claim C1: an in-dialog refresh replaces the timer and the record, answers 202 and sends
  one more active NOTIFY. The run of the code: Alice has subscribed with \<open>Expires: 3600\<close>
  and refreshes with \<open>Expires: 1800\<close>. The request of the refresh did not pass through
  \<open>validate\<close>, so it has no \<open>req.event\<close>, which \<open>refresh\<close> passes to \<open>addSubscription\<close>:
  that call throws, and the handler answers 480 after it has cancelled the timer and
  emptied the dialog's entry of the timer map. No timer is armed, no NOTIFY is sent, and
  the store still holds the record with its old time to live.
\<close>

theorem refresh_in_dialog_request_fails:
  "let w = refresh ex_env ALogger ADb (ex_request ''1800'') (ADlg ex_dialog) ex_sub subscribed_world
   in responses w = [(202, Some (Num 3600)), (480, None)]
    \<and> armed w = []
    \<and> dialogs w (Some ''d1'') = None
    \<and> sent w = sent subscribed_world
    \<and> kv w ''dlg-sub:alice@example.com-bob@example.com'' =
        Some (Hash [(''aor'', ''bob@example.com''), (''dialogId'', ''c1;from-tag=t1''), (''count'', ''0''),
                    (''etag'', ''4718''), (''id'', ''u1''), (''notifyType'', ''sip'')], Some 3600)"
  by (simp add: refresh_def clearSubscriptionTimer_def clearTimeout_def same_type_def
        removeSubscription_def addSubscription_def has_package_def get_str_def exec_def
        makeSubStateKeyDialog_def makeSubStateKeyId_def respond_def as_arg_def
        subscribed_world_fields ex_env_def ex_dialog_def ex_sub_def ex_request_def ex_cfg_def Let_def)

text \<open>
  Where a refresh request does carry \<open>req.event\<close> and \<open>req.expiry\<close>, the record's time
  to live is \<open>req.expiry\<close>, which need not be the expiry \<open>refresh\<close> computes, grants in the
  202 and arms the timer with: here the configured default is 600 and the \<open>Event\<close> header
  is \<open>dialog;id=7\<close>, which \<open>refresh\<close> looks up as a package name.
\<close>

lemma ex_validated_fields:
  "headers ex_validated = [''Event'' \<mapsto> ''dialog;id=7'', ''Call-ID'' \<mapsto> ''c1'']"
  "req_event ex_validated =
     Some \<lparr>subscriber = ''alice@example.com'', resource = ''bob@example.com'', eventType = ''dialog'',
           ev_id = Some ''7'', accept = None, callId = Some ''c1''\<rparr>"
  "req_expiry ex_validated = Num 600"
  unfolding ex_validated_def
  by (simp_all add: validate_def parseEventHeader_def trim_def is_ws_def header_expiry_def
        getDefaultSubscriptionExpiry_def parseAor_def ipv4_literal_def
        ex_env600_def ex_env_def ex_cfg_def ex_request_def Let_def)

lemma refresh_ttl_is_req_expiry:
  "let w = refresh ex_env600 ALogger ADb ex_validated (ADlg ex_dialog) ex_sub subscribed_world
   in responses w = [(202, Some (Num 3600)), (202, Some (Num 3600))]
    \<and> map (\<lambda>p. t_delay (snd p)) (armed w) = [Num 3600000]
    \<and> map_option snd (kv w ''dlg-sub:alice@example.com-bob@example.com'') = Some (Some 600)
    \<and> map n_state (sent w) = [''active'', ''active'']"
  by (simp add: refresh_def refresh_expiry_def header_expiry_def getDefaultSubscriptionExpiry_def
        clearSubscriptionTimer_def clearTimeout_def same_type_def startSubscriptionTimer_def
        removeSubscription_def addSubscription_def dialogAddSubscription_def has_package_def
        get_str_def exec_def sadd_def forget_def hash_of_sd_def show_int_0 hash_merge_def
        notify_def getEventState_def hgetall_def makeEventStateKey_def
        makeSubStateKeyDialog_def makeSubStateKeyId_def makeSubscriptionName_def
        makeSubscribedResourceKey_def respond_def as_arg_def
        subscribed_world_fields ex_validated_fields
        ex_env600_def ex_env_def ex_dialog_def ex_sub_def ex_cfg_def Let_def js_number_exact)

text \<open>
  In every state, \<open>remove\<close> cancels no timer and leaves the dialog's entry of the timer
  map as it was (unless the subscription's own id is the dialog's id). A timer that runs
  out leaves the whole timer map and the store as they were and sends nothing: its callback
  always ends in an uncaught exception, because the subscription parameter of its
  \<open>clearSubscriptionTimer\<close> call is \<open>undefined\<close>.
\<close>

lemma remove_never_cancels:
  "armed (remove E lg db req dlg sub w) = armed w"
proof -
  obtain e1 w1 where n: "notify E lg db sub dlg ''terminated'' w = (e1, w1)"
    by (cases "notify E lg db sub dlg ''terminated'' w")
  have a1: "armed w1 = armed w" using notify_frame(1)[of E lg db sub dlg "''terminated''" w] n by simp
  obtain e2 s2 where r: "removeSubscription E sub (kv w1) = (e2, s2)"
    by (cases "removeSubscription E sub (kv w1)")
  show ?thesis
    using n r a1
    by (cases e1; cases e2)
       (simp_all add: remove_def unhandled_error_frame clear_without_cancel)
qed

lemma remove_keeps_entry:
  assumes "arg_id sub \<noteq> arg_id dlg"
  shows "dialogs (remove E lg db req dlg sub w) (arg_id dlg) = dialogs w (arg_id dlg)"
proof -
  obtain e1 w1 where n: "notify E lg db sub dlg ''terminated'' w = (e1, w1)"
    by (cases "notify E lg db sub dlg ''terminated'' w")
  have d1: "dialogs w1 = dialogs w" using notify_dialogs[of E lg db sub dlg "''terminated''" w] n by simp
  obtain e2 s2 where r: "removeSubscription E sub (kv w1) = (e2, s2)"
    by (cases "removeSubscription E sub (kv w1)")
  have "dialogs (snd (clearSubscriptionTimer dlg db sub (ABool True) AUndef (w1\<lparr>kv := s2\<rparr>))) (arg_id dlg)
          = dialogs (w1\<lparr>kv := s2\<rparr>) (arg_id dlg)"
    using assms by (intro clear_other_key) simp
  then show ?thesis
    using n r d1
    by (cases e1; cases e2) (simp_all add: remove_def unhandled_error_dialogs)
qed

lemma expire_never_clears:
  "dialogs (expireSubscription E lg db dlg sub w) = dialogs w"
  "sent (expireSubscription E lg db dlg sub w) = sent w"
  "kv (expireSubscription E lg db dlg sub w) = kv w"
  "length (unhandled (expireSubscription E lg db dlg sub w)) = Suc (length (unhandled w))"
  using expire_is_error[of E lg db dlg sub w] by auto

lemma fire_never_clears:
  "dialogs (fire E h w) = dialogs w"
  "sent (fire E h w) = sent w"
  "kv (fire E h w) = kv w"
  by (simp_all add: fire_def expire_never_clears split: option.splits)

lemma fire_is_uncaught:
  "map_of (armed w) h \<noteq> None \<Longrightarrow> length (unhandled (fire E h w)) = Suc (length (unhandled w))"
  by (auto simp: fire_def expire_never_clears)

text \<open>
  Claim C2: a termination sends one terminated NOTIFY, removes the record and removes the
  pair from the timer map. The run of the code, for Alice's subscription: on unsubscribe
  the terminated NOTIFY is sent, but the last call of \<open>remove\<close> passes its arguments one
  place to the left, looks the subscription's own id up in the timer map, and fails its
  assertion: the pair stays in the map, the timer stays armed, and (the subscription
  object of the dialog package has no event type, so \<open>removeSubscription\<close> takes the
  generic path) the record and the set member stay in the store. When the timer runs out
  instead, the misplaced call at the end of the callback fails the same way while the
  notification is still waiting for the store: the exception is uncaught, no terminated
  NOTIFY is sent, and the pair stays in the map.
\<close>

theorem termination_keeps_timer_entry:
  "(let w = remove ex_env ALogger ADb (ex_request ''0'') (ADlg ex_dialog) ex_sub subscribed_world
    in map n_state (sent w) = [''active'', ''terminated'']
     \<and> unhandled w = [AssertionError]
     \<and> dialogs w (Some ''d1'') = Some [\<lparr>subscription = ex_sub, timer = 0\<rparr>]
     \<and> map fst (armed w) = [0]
     \<and> set_members (kv w) ''watched-aor:bob@example.com'' = [''dlg-sub:alice@example.com-bob@example.com'']
     \<and> live_record (kv w) ''dlg-sub:alice@example.com-bob@example.com'' \<noteq> None)
   \<and> (let w = fire ex_env 0 subscribed_world
      in map n_state (sent w) = [''active'']
       \<and> unhandled w = [AssertionError]
       \<and> dialogs w (Some ''d1'') = Some [\<lparr>subscription = ex_sub, timer = 0\<rparr>])"
  by (simp add: remove_def fire_def expireSubscription_def notify_def unhandled_error_def
        getEventState_def hgetall_def makeEventStateKey_def
        clearSubscriptionTimer_def clearTimeout_def same_type_def
        removeSubscription_def has_package_def get_str_def exec_def
        makeSubStateKeyDialog_def makeSubStateKeyId_def respond_def as_arg_def
        set_members_def live_record_def
        subscribed_world_fields ex_env_def ex_dialog_def ex_sub_def ex_request_def ex_cfg_def Let_def)

text \<open>
  For an event type without a package the failure of the write is seen by \<open>initial\<close>:
  it answers 480 and arms no timer.
\<close>

lemma initial_generic_write_failure:
  assumes "uas E = Some d" and "req_event req = Some e"
    and "\<not> has_package E (Some (eventType e))" and "faulty E EXEC"
  shows "initial E lg req w =
           w\<lparr>responses := responses w @ [(uas_status E, Some (req_expiry req)), (480, None)]\<rparr>"
  using assms
  by (simp add: initial_def addSubscription_def exec_def respond_def as_arg_def Let_def)

text \<open>
  Claim C3: when the store write of an initial SUBSCRIBE fails, the answer is 480, nothing
  is written and no timer is armed. The run of the code, with a store that rejects the
  transaction: \<open>dialogAddSubscription\<close> catches the rejection and returns \<open>undefined\<close>, so
  \<open>initial\<close> goes on: the only answer is the 202 of \<open>createUAS\<close>, a timer is armed for an
  undefined subscription, the active NOTIFY is sent, and the member added to the
  watched-resource set before the transaction stays, without its record. With a store
  that rejects every command the answer, the timer and the NOTIFY are the same.
\<close>

theorem failed_write_arms_timer:
  "(let w = subscribe_handler (ex_env\<lparr>faulty := (\<lambda>c. c = EXEC)\<rparr>) (ex_request ''3600'') ex_world
    in responses w = [(202, Some (Num 3600))]
    \<and> map (\<lambda>p. (fst p, t_sub (snd p), t_delay (snd p))) (armed w) = [(0, AUndef, Num 3600000)]
    \<and> dialogs w (Some ''d1'') = Some [\<lparr>subscription = AUndef, timer = 0\<rparr>]
    \<and> map n_state (sent w) = [''active'']
    \<and> set_members (kv w) ''watched-aor:bob@example.com'' = [''dlg-sub:alice@example.com-bob@example.com'']
    \<and> kv w ''dlg-sub:alice@example.com-bob@example.com'' = None)
   \<and> (let w = subscribe_handler (ex_env\<lparr>faulty := (\<lambda>c. True)\<rparr>) (ex_request ''3600'') ex_world
      in responses w = [(202, Some (Num 3600))]
       \<and> map (\<lambda>p. (fst p, t_sub (snd p), t_delay (snd p))) (armed w) = [(0, AUndef, Num 3600000)]
       \<and> dialogs w (Some ''d1'') = Some [\<lparr>subscription = AUndef, timer = 0\<rparr>]
       \<and> map n_state (sent w) = [''active''])"
  by (simp add: engine_defs parseInt_3600 show_int_0 trim_def is_ws_def is_digit_def set_members_def Let_def)

end
